theory Spec2Isabelle
  imports Main "HOL-Library.Multiset" "HOL-Library.Char_ord" "HOL-Library.List_Lexorder"
    "HOL-Library.Sublist"
begin

section \<open>Library functions the program calls\<close>

text \<open>
  The program is a Node.js main process. Two library functions cannot be written out:
  the SHA-256 digest and the collation order behind \<open>String.prototype.localeCompare\<close>.
  Both are parameters of the model. \<open>sha256\<close> maps the bytes fed to a hash object to the
  hex digest; \<open>sortKey\<close> maps a string to its collation key, so that
  \<open>a.localeCompare(b)\<close> is the comparison of \<open>sortKey a\<close> with \<open>sortKey b\<close>.
\<close>

record platform =
  sha256 :: "string \<Rightarrow> string"
  sortKey :: "string \<Rightarrow> string"

text \<open>
  A stand-in used only to run the model on concrete trees: the digest of a byte string is
  the byte string itself (so distinct contents have distinct digests, as is expected of
  SHA-256), and names are ordered by their bytes.
\<close>

definition plain_platform :: platform where
  "plain_platform = \<lparr>sha256 = (\<lambda>bytes. bytes), sortKey = (\<lambda>name. name)\<rparr>"

subsection \<open>Strings\<close>

text \<open>\<open>String.prototype.split\<close> with a one-character separator.\<close>

fun split :: "char \<Rightarrow> string \<Rightarrow> string list" where
  "split c [] = [[]]"
| "split c (x # xs) =
     (if x = c then [] # split c xs
      else (case split c xs of [] \<Rightarrow> [[x]] | p # ps \<Rightarrow> (x # p) # ps))"

text \<open>\<open>Array.prototype.join\<close>.\<close>

fun join_with :: "string \<Rightarrow> string list \<Rightarrow> string" where
  "join_with s [] = []"
| "join_with s [x] = x"
| "join_with s (x # y # ys) = x @ s @ join_with s (y # ys)"

text \<open>Template-literal rendering of a non-negative integer.\<close>

definition digit :: "nat \<Rightarrow> char" where
  "digit d = ''0123456789'' ! d"

fun dec :: "nat \<Rightarrow> string" where
  "dec n = (if n < 10 then [digit n] else dec (n div 10) @ [digit (n mod 10)])"

declare dec.simps [simp del]

text \<open>\<open>String.prototype.toLowerCase\<close>, on ASCII letters.\<close>

definition lower_char :: "char \<Rightarrow> char" where
  "lower_char c =
     (case map_of (zip ''ABCDEFGHIJKLMNOPQRSTUVWXYZ'' ''abcdefghijklmnopqrstuvwxyz'') c of
        None \<Rightarrow> c | Some l \<Rightarrow> l)"

definition toLowerCase :: "string \<Rightarrow> string" where
  "toLowerCase s = map lower_char s"

subsection \<open>The \<open>path\<close> module (POSIX flavour)\<close>

definition sep :: char where
  "sep = CHR ''/''"

fun normalizeSegments :: "bool \<Rightarrow> string list \<Rightarrow> string list \<Rightarrow> string list" where
  "normalizeSegments allowAboveRoot res [] = res"
| "normalizeSegments allowAboveRoot res (s # ss) =
     (if s = [] \<or> s = ''.'' then normalizeSegments allowAboveRoot res ss
      else if s = ''..'' then
        (if res \<noteq> [] \<and> last res \<noteq> ''..'' then normalizeSegments allowAboveRoot (butlast res) ss
         else if allowAboveRoot then normalizeSegments allowAboveRoot (res @ [''..'']) ss
         else normalizeSegments allowAboveRoot res ss)
      else normalizeSegments allowAboveRoot (res @ [s]) ss)"

definition path_normalize :: "string \<Rightarrow> string" where
  "path_normalize p =
     (if p = [] then ''.''
      else
        let isAbsolute = (hd p = sep);
            trailingSeparator = (last p = sep);
            body = join_with [sep] (normalizeSegments (\<not> isAbsolute) [] (split sep p))
        in if body = [] then (if isAbsolute then [sep] else if trailingSeparator then ''./'' else ''.'')
           else (if isAbsolute then [sep] else []) @ body @ (if trailingSeparator then [sep] else []))"

text \<open>\<open>path.join\<close>: zero-length arguments are ignored, the rest is joined and normalised.\<close>

definition path_join :: "string list \<Rightarrow> string" where
  "path_join args =
     (case filter (\<lambda>arg. arg \<noteq> []) args of
        [] \<Rightarrow> ''.''
      | joined \<Rightarrow> path_normalize (join_with [sep] joined))"

definition basename :: "string \<Rightarrow> string" where
  "basename p = (case filter (\<lambda>s. s \<noteq> []) (split sep p) of [] \<Rightarrow> [] | ss \<Rightarrow> last ss)"

definition dirname :: "string \<Rightarrow> string" where
  "dirname p =
     (if p = [] then ''.''
      else
        let body = rev (dropWhile (\<lambda>c. c = sep) (rev p)) in
        if body = [] then [sep]
        else if sep \<notin> set body then ''.''
        else
          let dir = rev (tl (dropWhile (\<lambda>c. c \<noteq> sep) (rev body))) in
          if dir = [] then [sep] else dir)"

definition extname :: "string \<Rightarrow> string" where
  "extname p =
     (let b = basename p in
      if CHR ''.'' \<notin> set b \<or> b = ''..'' then []
      else
        let ext = CHR ''.'' # rev (takeWhile (\<lambda>c. c \<noteq> CHR ''.'') (rev b)) in
        if length ext = length b then [] else ext)"

text \<open>\<open>path.basename(p, ext)\<close>.\<close>

definition basename_ext :: "string \<Rightarrow> string \<Rightarrow> string" where
  "basename_ext p ext =
     (let b = basename p in
      if ext = [] then b
      else if ext = p then []
      else if length ext < length b \<and> drop (length b - length ext) b = ext
        then take (length b - length ext) b
      else b)"

text \<open>
  \<open>path.relative(from, to)\<close> for two paths of the same kind (both absolute, or both relative
  to the working directory).
\<close>

fun drop_common :: "string list \<Rightarrow> string list \<Rightarrow> string list \<times> string list" where
  "drop_common (x # xs) (y # ys) = (if x = y then drop_common xs ys else (x # xs, y # ys))"
| "drop_common xs ys = (xs, ys)"

definition relative :: "string \<Rightarrow> string \<Rightarrow> string" where
  "relative fromPath toPath =
     (let (f, t) = drop_common (normalizeSegments True [] (split sep fromPath))
                               (normalizeSegments True [] (split sep toPath))
      in join_with [sep] (map (\<lambda>_. ''..'') f @ t))"

section \<open>normalizeFolderName\<close>

text \<open>The folder name up to its first underscore, or the whole name when there is none.\<close>

definition normalizeFolderName :: "string \<Rightarrow> string" where
  "normalizeFolderName folderName = takeWhile (\<lambda>c. c \<noteq> CHR ''_'') folderName"

section \<open>hashFile\<close>

datatype error = Paused | IOError | TypeError

text \<open>
  \<open>hashFile\<close> registers three listeners on a read stream and shares the flag
  \<open>state.paused\<close> with the message handlers of the process. What it does is determined by
  the order in which the stream's events and the handlers' writes to the flag arrive:
  \<open>PauseProcess\<close> is the \<open>pause-process\<close> handler (\<open>state.paused = true\<close>),
  \<open>ClearPause\<close> is the first statement of \<open>start-process\<close>, \<open>resume-process\<close>,
  \<open>merge-folders\<close> and \<open>confirm-merge\<close> (\<open>state.paused = false\<close>). A completed stream ends
  with \<open>end\<close> or with \<open>error\<close>.
\<close>

datatype stream_event = Data string | PauseProcess | ClearPause

datatype stream_end = End | StreamError

text \<open>
  The hash object is the byte string fed to it so far. A \<open>data\<close> chunk is fed only while
  the flag is down.
\<close>

fun hashFile_feed :: "stream_event list \<Rightarrow> bool \<times> string \<Rightarrow> bool \<times> string" where
  "hashFile_feed [] (flag, hash) = (flag, hash)"
| "hashFile_feed (Data d # evs) (flag, hash) =
     hashFile_feed evs (flag, if \<not> flag then hash @ d else hash)"
| "hashFile_feed (PauseProcess # evs) (flag, hash) = hashFile_feed evs (True, hash)"
| "hashFile_feed (ClearPause # evs) (flag, hash) = hashFile_feed evs (False, hash)"

text \<open>
  The result of the promise and the value of the flag when it settles.
\<close>

definition hashFile :: "platform \<Rightarrow> bool \<Rightarrow> stream_event list \<Rightarrow> stream_end \<Rightarrow> (error + string) \<times> bool" where
  "hashFile P flag0 evs fin =
     (case hashFile_feed evs (flag0, []) of
        (flag, hash) \<Rightarrow>
          (case fin of
             End \<Rightarrow> (if \<not> flag then Inr (sha256 P hash) else Inl Paused, flag)
           | StreamError \<Rightarrow> (Inl IOError, flag)))"

text \<open>The bytes of the file that the stream delivered.\<close>

fun stream_bytes :: "stream_event list \<Rightarrow> string" where
  "stream_bytes [] = []"
| "stream_bytes (Data d # evs) = d @ stream_bytes evs"
| "stream_bytes (_ # evs) = stream_bytes evs"

section \<open>Folder signatures\<close>

record file_hash =
  fh_name :: string
  fh_size :: nat
  fh_hash :: string

text \<open>
  The part shared by \<open>buildFolderSignature\<close> and \<open>buildDestinationFolderSignature\<close>: sort
  the entries by name with \<open>localeCompare\<close> (\<open>Array.prototype.sort\<close> is stable), feed
  \<open>name:size:hash\<close> of each to a fresh hash object, and take the digest.
\<close>

definition signature_line :: "file_hash \<Rightarrow> string" where
  "signature_line fh = fh_name fh @ '':'' @ dec (fh_size fh) @ '':'' @ fh_hash fh"

definition signature_digest :: "platform \<Rightarrow> file_hash list \<Rightarrow> string" where
  "signature_digest P fileHashes =
     sha256 P (concat (map signature_line (sort_key (\<lambda>fh. sortKey P (fh_name fh)) fileHashes)))"

section \<open>Destination folder of a file\<close>

text \<open>
  The per-file pass exists twice, in \<open>start-process\<close> and in \<open>resume-process\<close>. The two
  copies differ in one place: \<open>start-process\<close> drops empty segments of the file's
  folder-relative path before it normalises them.
\<close>

definition destFolderPath_start :: "string \<Rightarrow> string \<Rightarrow> string" where
  "destFolderPath_start destinationFolder folderRelativePath =
     (if folderRelativePath \<noteq> [] \<and> folderRelativePath \<noteq> ''.'' then
        let folderParts = filter (\<lambda>p. p \<noteq> []) (split sep folderRelativePath);
            normalizedParts = map normalizeFolderName folderParts
        in path_join (destinationFolder # normalizedParts)
      else destinationFolder)"

definition destFolderPath_resume :: "string \<Rightarrow> string \<Rightarrow> string" where
  "destFolderPath_resume destinationFolder folderRelativePath =
     (if folderRelativePath \<noteq> [] \<and> folderRelativePath \<noteq> ''.'' then
        let folderParts = split sep folderRelativePath;
            normalizedParts = map normalizeFolderName folderParts
        in path_join (destinationFolder # normalizedParts)
      else destinationFolder)"

section \<open>The file system and the run state\<close>

text \<open>
  The disk is a list of entries keyed by normalised absolute path; a directory lists its
  children in the order of the list. A file has its bytes and a flag that says whether it
  can be opened for reading.
\<close>

datatype node = Dir | File string bool

type_synonym filesystem = "(string \<times> node) list"

datatype dirent = Dirent string bool

fun d_name :: "dirent \<Rightarrow> string" where
  "d_name (Dirent name isDir) = name"

fun isDirectory :: "dirent \<Rightarrow> bool" where
  "isDirectory (Dirent name isDir) = isDir"

fun node_size :: "node \<Rightarrow> nat" where
  "node_size Dir = 0"
| "node_size (File bytes r) = length bytes"

definition fs_stat :: "filesystem \<Rightarrow> string \<Rightarrow> error + node" where
  "fs_stat disk p = (case map_of disk p of None \<Rightarrow> Inl IOError | Some n \<Rightarrow> Inr n)"

definition fs_access :: "filesystem \<Rightarrow> string \<Rightarrow> bool" where
  "fs_access disk p = (map_of disk p \<noteq> None)"

definition fs_readdir :: "filesystem \<Rightarrow> string \<Rightarrow> error + dirent list" where
  "fs_readdir disk p =
     (case map_of disk p of
        Some Dir \<Rightarrow>
          Inr (map (\<lambda>(q, n). Dirent (basename q) (n = Dir))
                 (filter (\<lambda>(q, n). q \<noteq> p \<and> dirname q = p) disk))
      | _ \<Rightarrow> Inl IOError)"

text \<open>\<open>fs.readdir\<close> with \<open>recursive: true\<close>: every entry below the directory.\<close>

definition fs_readdir_recursive :: "filesystem \<Rightarrow> string \<Rightarrow> error + dirent list" where
  "fs_readdir_recursive disk p =
     (case map_of disk p of
        Some Dir \<Rightarrow>
          Inr (map (\<lambda>(q, n). Dirent (basename q) (n = Dir))
                 (filter (\<lambda>(q, n). prefix (p @ [sep]) q) disk))
      | _ \<Rightarrow> Inl IOError)"

text \<open>\<open>fs.mkdir\<close> with \<open>recursive: true\<close>.\<close>

definition ancestors :: "string \<Rightarrow> string list" where
  "ancestors p =
     (let segs = filter (\<lambda>s. s \<noteq> []) (split sep p);
          root = (if p \<noteq> [] \<and> hd p = sep then [sep] else [])
      in map (\<lambda>k. root @ join_with [sep] (take k segs)) [1 ..< Suc (length segs)])"

fun mkdir_each :: "string list \<Rightarrow> filesystem \<Rightarrow> error + filesystem" where
  "mkdir_each [] disk = Inr disk"
| "mkdir_each (a # as) disk =
     (case map_of disk a of
        None \<Rightarrow> mkdir_each as (disk @ [(a, Dir)])
      | Some Dir \<Rightarrow> mkdir_each as disk
      | Some (File bytes r) \<Rightarrow> Inl IOError)"

definition fs_mkdir :: "filesystem \<Rightarrow> string \<Rightarrow> error + filesystem" where
  "fs_mkdir disk p = mkdir_each (ancestors p) disk"

text \<open>\<open>fs.copyFile\<close> replaces an existing destination file.\<close>

definition fs_write :: "filesystem \<Rightarrow> string \<Rightarrow> string \<Rightarrow> filesystem" where
  "fs_write disk p bytes =
     (if map_of disk p = None then disk @ [(p, File bytes True)]
      else map (\<lambda>(q, n). if q = p then (q, File bytes True) else (q, n)) disk)"

definition fs_copyFile :: "filesystem \<Rightarrow> string \<Rightarrow> string \<Rightarrow> error + string \<times> filesystem" where
  "fs_copyFile disk src dst =
     (case map_of disk src of
        Some (File bytes True) \<Rightarrow>
          (if map_of disk (dirname dst) = Some Dir \<and> map_of disk dst \<noteq> Some Dir
           then Inr (bytes, fs_write disk dst bytes) else Inl IOError)
      | _ \<Rightarrow> Inl IOError)"

text \<open>\<open>fs.rm\<close> with \<open>recursive: true, force: true\<close>.\<close>

definition fs_rm :: "filesystem \<Rightarrow> string \<Rightarrow> filesystem" where
  "fs_rm disk p = filter (\<lambda>(q, n). q \<noteq> p \<and> \<not> prefix (p @ [sep]) q) disk"

record stats =
  scanned :: nat
  copied :: nat
  duplicates :: nat
  sizeCopied :: nat

record fileInfo =
  f_path :: string
  f_size :: nat
  f_name :: string
  f_relativePath :: string
  f_folderPath :: string
  f_folderRelativePath :: string

record folderInfo =
  d_path :: string
  d_relativePath :: string
  d_files :: "fileInfo list"
  d_subFolders :: "string list"
  d_isLeaf :: bool

record report =
  r_sourcePath :: string
  r_destinationPath :: string
  r_status :: string

text \<open>
  The global \<open>state\<close>. Its \<open>folderMap\<close> is cleared by \<open>start-process\<close> and is neither
  written nor read anywhere else; it is left out. The two maps to \<open>true\<close> and the set are
  sets of keys.
\<close>

record state =
  paused :: bool
  currentIndex :: nat
  deduplicationMap :: "string set"
  fileList :: "fileInfo list"
  folderList :: "folderInfo list"
  copiedFolders :: "string set"
  folderReport :: "report list"
  stats :: stats

datatype message =
  ProcessComplete stats "report list" "string option"
| MergeComplete stats "string option"

text \<open>
  What a handler runs in: the global state, the disk, the messages sent to the window
  (progress updates are not recorded), a log of every completed \<open>fs.copyFile\<close> as
  (source, destination, bytes written), and the time at which the \<open>pause-process\<close> message
  arrives: \<open>pauseIn = Some k\<close> says that it is handled while the handler waits for its
  \<open>(k+1)\<close>-th file-system operation from now on, \<open>None\<close> that it does not arrive.
\<close>

record world =
  st :: state
  disk :: filesystem
  copyLog :: "(string \<times> string \<times> string) list"
  outbox :: "message list"
  pauseIn :: "nat option"

definition set_paused :: "bool \<Rightarrow> world \<Rightarrow> world" where
  "set_paused b w = w\<lparr>st := (st w)\<lparr>paused := b\<rparr>\<rparr>"

definition elapse :: "world \<Rightarrow> world" where
  "elapse w = w\<lparr>pauseIn := (case pauseIn w of Some (Suc k) \<Rightarrow> Some k | _ \<Rightarrow> None)\<rparr>"

text \<open>One awaited operation: the message handlers that were waiting run.\<close>

definition tick :: "world \<Rightarrow> world" where
  "tick w = set_paused (paused (st w) \<or> pauseIn w = Some 0) (elapse w)"

definition io_readdir :: "string \<Rightarrow> world \<Rightarrow> (error + dirent list) \<times> world" where
  "io_readdir p w = (fs_readdir (disk w) p, tick w)"

definition io_readdir_recursive :: "string \<Rightarrow> world \<Rightarrow> (error + dirent list) \<times> world" where
  "io_readdir_recursive p w = (fs_readdir_recursive (disk w) p, tick w)"

definition io_stat :: "string \<Rightarrow> world \<Rightarrow> (error + node) \<times> world" where
  "io_stat p w = (fs_stat (disk w) p, tick w)"

definition io_access :: "string \<Rightarrow> world \<Rightarrow> bool \<times> world" where
  "io_access p w = (fs_access (disk w) p, tick w)"

definition io_mkdir :: "string \<Rightarrow> world \<Rightarrow> (error + unit) \<times> world" where
  "io_mkdir p w =
     (case fs_mkdir (disk w) p of
        Inl e \<Rightarrow> (Inl e, tick w)
      | Inr d \<Rightarrow> (Inr (), tick (w\<lparr>disk := d\<rparr>)))"

definition io_copyFile :: "string \<Rightarrow> string \<Rightarrow> world \<Rightarrow> (error + unit) \<times> world" where
  "io_copyFile src dst w =
     (case fs_copyFile (disk w) src dst of
        Inl e \<Rightarrow> (Inl e, tick w)
      | Inr (bytes, d) \<Rightarrow>
          (Inr (), tick (w\<lparr>disk := d, copyLog := copyLog w @ [(src, dst, bytes)]\<rparr>)))"

definition io_rm :: "string \<Rightarrow> world \<Rightarrow> world" where
  "io_rm p w = tick (w\<lparr>disk := fs_rm (disk w) p\<rparr>)"

text \<open>
  \<open>hashFile\<close> on a path: the stream delivers the bytes of a readable file and ends, or
  fails; a pause message that arrives meanwhile is handled before the stream ends.
\<close>

definition io_hashFile :: "platform \<Rightarrow> string \<Rightarrow> world \<Rightarrow> (error + string) \<times> world" where
  "io_hashFile P p w =
     (let arriving = (if pauseIn w = Some 0 then [PauseProcess] else []) in
      case (case map_of (disk w) p of
              Some (File bytes True) \<Rightarrow>
                hashFile P (paused (st w)) ((if bytes = [] then [] else [Data bytes]) @ arriving) End
            | _ \<Rightarrow> hashFile P (paused (st w)) arriving StreamError) of
        (result, flag) \<Rightarrow> (result, set_paused flag (elapse w)))"

text \<open>The key \<open>`${size}:${hash}`\<close> of a file's content.\<close>

definition contentKey :: "nat \<Rightarrow> string \<Rightarrow> string" where
  "contentKey sz hash = dec sz @ '':'' @ hash"

section \<open>scanDirectory\<close>

definition allowed :: "string list \<Rightarrow> string \<Rightarrow> bool" where
  "allowed allowedExtensions name =
     (let ext = drop 1 (toLowerCase (extname name))
      in allowedExtensions = [] \<or> ext \<in> set allowedExtensions)"

definition push_file :: "fileInfo \<Rightarrow> world \<Rightarrow> world" where
  "push_file f w = w\<lparr>st := (st w)\<lparr>fileList := fileList (st w) @ [f]\<rparr>\<rparr>"

definition push_folder :: "folderInfo \<Rightarrow> world \<Rightarrow> world" where
  "push_folder d w = w\<lparr>st := (st w)\<lparr>folderList := folderList (st w) @ [d]\<rparr>\<rparr>"

text \<open>
  The directory walks call themselves on subdirectories that they read from the disk; the
  first argument bounds the depth of the calls, and \<open>None\<close> says that the bound was
  reached. The loop over the entries of one directory takes the recursive call as
  \<open>descend\<close>. Its accumulator is \<open>(folderFiles, subFolders, hasSubDirectories)\<close>.
  The arrays \<open>fileList\<close> and \<open>folderList\<close> that the call site passes are those of the
  global state.
\<close>

fun scanDirectory_entries ::
  "(string \<Rightarrow> string \<Rightarrow> world \<Rightarrow> world option) \<Rightarrow> string list \<Rightarrow> string \<Rightarrow> string \<Rightarrow> string \<Rightarrow>
   dirent list \<Rightarrow> fileInfo list \<times> (string \<times> string) list \<times> bool \<Rightarrow> world \<Rightarrow>
   ((fileInfo list \<times> (string \<times> string) list \<times> bool) \<times> world) option" where
  "scanDirectory_entries descend allowedExtensions dirPath relativePath sourceRoot [] acc w =
     Some (acc, w)"
| "scanDirectory_entries descend allowedExtensions dirPath relativePath sourceRoot
     (entry # entries) (folderFiles, subFolders, hasSubDirectories) w =
     (if paused (st w) then Some ((folderFiles, subFolders, hasSubDirectories), w)
      else
        let fullPath = path_join [dirPath, d_name entry];
            relPath = (if relativePath \<noteq> [] then path_join [relativePath, d_name entry]
                       else d_name entry);
            relativeFromRoot = relative sourceRoot fullPath
        in
        if isDirectory entry then
          (case descend fullPath relPath w of
             None \<Rightarrow> None
           | Some w1 \<Rightarrow>
               scanDirectory_entries descend allowedExtensions dirPath relativePath sourceRoot
                 entries (folderFiles, subFolders @ [(fullPath, relPath)], True) w1)
        else if allowed allowedExtensions (d_name entry) then
          (case io_stat fullPath w of
             (Inl e, w1) \<Rightarrow>
               scanDirectory_entries descend allowedExtensions dirPath relativePath sourceRoot
                 entries (folderFiles, subFolders, hasSubDirectories) w1
           | (Inr stat, w1) \<Rightarrow>
               let fileInfo = \<lparr>f_path = fullPath, f_size = node_size stat,
                                 f_name = d_name entry, f_relativePath = relativeFromRoot,
                                 f_folderPath = dirPath,
                                 f_folderRelativePath = dirname relativeFromRoot\<rparr>
               in scanDirectory_entries descend allowedExtensions dirPath relativePath sourceRoot
                    entries (folderFiles @ [fileInfo], subFolders, hasSubDirectories)
                    (push_file fileInfo w1))
        else
          scanDirectory_entries descend allowedExtensions dirPath relativePath sourceRoot
            entries (folderFiles, subFolders, hasSubDirectories) w)"

fun scanDirectory ::
  "nat \<Rightarrow> string list \<Rightarrow> string \<Rightarrow> string \<Rightarrow> string \<Rightarrow> world \<Rightarrow> world option" where
  "scanDirectory 0 allowedExtensions dirPath relativePath sourceRoot0 w = None"
| "scanDirectory (Suc depth) allowedExtensions dirPath relativePath sourceRoot0 w =
     (let sourceRoot = (if sourceRoot0 = [] then dirPath else sourceRoot0) in
      case io_readdir dirPath w of
        (Inl e, w1) \<Rightarrow> Some w1
      | (Inr entries, w1) \<Rightarrow>
          (case scanDirectory_entries
                  (\<lambda>p r v. scanDirectory depth allowedExtensions p r sourceRoot v)
                  allowedExtensions dirPath relativePath sourceRoot entries ([], [], False) w1 of
             None \<Rightarrow> None
           | Some ((folderFiles, subFolders, hasSubDirectories), w2) \<Rightarrow>
               Some (if folderFiles \<noteq> [] \<or> subFolders \<noteq> [] then
                       push_folder
                         \<lparr>d_path = dirPath,
                          d_relativePath = (if relativePath \<noteq> [] then relativePath
                                            else basename dirPath),
                          d_files = folderFiles,
                          d_subFolders = map snd subFolders,
                          d_isLeaf = (\<not> hasSubDirectories)\<rparr> w2
                     else w2)))"

section \<open>buildFolderSignature\<close>

record signature =
  sig_hash :: string
  sig_fileCount :: nat
  sig_totalSize :: nat
  sig_files :: "file_hash list"

text \<open>The loop that hashes the direct files of a folder; a file that fails is left out.\<close>

fun hash_files :: "platform \<Rightarrow> fileInfo list \<Rightarrow> file_hash list \<Rightarrow> world \<Rightarrow> file_hash list \<times> world" where
  "hash_files P [] fileHashes w = (fileHashes, w)"
| "hash_files P (file # files) fileHashes w =
     (if paused (st w) then (fileHashes, w)
      else
        (case io_hashFile P (f_path file) w of
           (Inl e, w1) \<Rightarrow> hash_files P files fileHashes w1
         | (Inr hash, w1) \<Rightarrow>
             hash_files P files
               (fileHashes @ [\<lparr>fh_name = f_name file, fh_size = f_size file, fh_hash = hash\<rparr>]) w1))"

text \<open>The parameter \<open>allowedExtensions\<close> of the source is not used by its body.\<close>

definition buildFolderSignature :: "platform \<Rightarrow> folderInfo \<Rightarrow> world \<Rightarrow> signature \<times> world" where
  "buildFolderSignature P folderInfo w =
     (case hash_files P (d_files folderInfo) [] w of
        (fileHashes, w1) \<Rightarrow>
          (\<lparr>sig_hash = signature_digest P fileHashes,
            sig_fileCount = length fileHashes,
            sig_totalSize = sum_list (map f_size (d_files folderInfo)),
            sig_files = fileHashes\<rparr>, w1))"

section \<open>scanDestinationFolder and buildDestinationFolderSignature\<close>

text \<open>
  The result of \<open>scanDestinationFolder\<close>: the hashed direct files and the results for the
  subdirectories (the two path fields are not read by any caller).
\<close>

datatype destFolderInfo = DestFolderInfo "file_hash list" "destFolderInfo list"

fun df_files :: "destFolderInfo \<Rightarrow> file_hash list" where
  "df_files (DestFolderInfo files subFolders) = files"

fun scanDestinationFolder_entries ::
  "(string \<Rightarrow> string \<Rightarrow> world \<Rightarrow> (destFolderInfo \<times> world) option) \<Rightarrow> platform \<Rightarrow> string list \<Rightarrow>
   string \<Rightarrow> string \<Rightarrow> dirent list \<Rightarrow> file_hash list \<times> destFolderInfo list \<Rightarrow> world \<Rightarrow>
   ((file_hash list \<times> destFolderInfo list) \<times> world) option" where
  "scanDestinationFolder_entries descend P allowedExtensions dirPath relativePath [] acc w =
     Some (acc, w)"
| "scanDestinationFolder_entries descend P allowedExtensions dirPath relativePath
     (entry # entries) (files, subFolders) w =
     (if paused (st w) then Some ((files, subFolders), w)
      else
        let fullPath = path_join [dirPath, d_name entry];
            relPath = path_join [relativePath, d_name entry]
        in
        if isDirectory entry then
          (case descend fullPath relPath w of
             None \<Rightarrow> None
           | Some (subFolder, w1) \<Rightarrow>
               scanDestinationFolder_entries descend P allowedExtensions dirPath relativePath
                 entries (files, subFolders @ [subFolder]) w1)
        else if allowed allowedExtensions (d_name entry) then
          (case io_stat fullPath w of
             (Inl e, w1) \<Rightarrow>
               scanDestinationFolder_entries descend P allowedExtensions dirPath relativePath
                 entries (files, subFolders) w1
           | (Inr stat, w1) \<Rightarrow>
               (case io_hashFile P fullPath w1 of
                  (Inl e, w2) \<Rightarrow>
                    scanDestinationFolder_entries descend P allowedExtensions dirPath relativePath
                      entries (files, subFolders) w2
                | (Inr hash, w2) \<Rightarrow>
                    scanDestinationFolder_entries descend P allowedExtensions dirPath relativePath
                      entries
                      (files @ [\<lparr>fh_name = d_name entry, fh_size = node_size stat,
                                  fh_hash = hash\<rparr>], subFolders) w2))
        else
          scanDestinationFolder_entries descend P allowedExtensions dirPath relativePath
            entries (files, subFolders) w)"

fun scanDestinationFolder ::
  "nat \<Rightarrow> platform \<Rightarrow> string \<Rightarrow> string list \<Rightarrow> string \<Rightarrow> world \<Rightarrow> (destFolderInfo \<times> world) option" where
  "scanDestinationFolder 0 P dirPath allowedExtensions relativePath w = None"
| "scanDestinationFolder (Suc depth) P dirPath allowedExtensions relativePath w =
     (case io_readdir dirPath w of
        (Inl e, w1) \<Rightarrow> Some (DestFolderInfo [] [], w1)
      | (Inr entries, w1) \<Rightarrow>
          (case scanDestinationFolder_entries
                  (\<lambda>p r v. scanDestinationFolder depth P p allowedExtensions r v)
                  P allowedExtensions dirPath relativePath entries ([], []) w1 of
             None \<Rightarrow> None
           | Some ((files, subFolders), w2) \<Rightarrow> Some (DestFolderInfo files subFolders, w2)))"

definition buildDestinationFolderSignature :: "platform \<Rightarrow> destFolderInfo \<Rightarrow> string" where
  "buildDestinationFolderSignature P folderInfo = signature_digest P (df_files folderInfo)"

section \<open>mergeFolderRecursive\<close>

text \<open>
  The result is the exception that left the function, if one did, the map of content keys
  and the world. An exception inside the loop is caught there; one from creating the
  destination directory or from reading the source directory leaves the function.
\<close>

fun mergeFolderRecursive_entries ::
  "(string \<Rightarrow> string \<Rightarrow> string set \<Rightarrow> world \<Rightarrow> (error option \<times> string set \<times> world) option) \<Rightarrow>
   platform \<Rightarrow> string \<Rightarrow> string \<Rightarrow> dirent list \<Rightarrow> string set \<Rightarrow> world \<Rightarrow>
   (string set \<times> world) option" where
  "mergeFolderRecursive_entries descend P sourcePath destPath [] fileHashMap w =
     Some (fileHashMap, w)"
| "mergeFolderRecursive_entries descend P sourcePath destPath (entry # entries) fileHashMap w =
     (if paused (st w) then Some (fileHashMap, w)
      else
        let sourceEntry = path_join [sourcePath, d_name entry];
            destEntry = path_join [destPath, d_name entry]
        in
        if isDirectory entry then
          (case descend sourceEntry destEntry fileHashMap w of
             None \<Rightarrow> None
           | Some (thrown, fileHashMap1, w1) \<Rightarrow>
               mergeFolderRecursive_entries descend P sourcePath destPath entries fileHashMap1 w1)
        else
          (case io_stat sourceEntry w of
             (Inl e, w1) \<Rightarrow>
               mergeFolderRecursive_entries descend P sourcePath destPath entries fileHashMap w1
           | (Inr stat, w1) \<Rightarrow>
               (case io_hashFile P sourceEntry w1 of
                  (Inl e, w2) \<Rightarrow>
                    mergeFolderRecursive_entries descend P sourcePath destPath entries
                      fileHashMap w2
                | (Inr hash, w2) \<Rightarrow>
                    let key = contentKey (node_size stat) hash in
                    if key \<notin> fileHashMap then
                      (case io_copyFile sourceEntry destEntry w2 of
                         (Inl e, w3) \<Rightarrow>
                           mergeFolderRecursive_entries descend P sourcePath destPath entries
                             fileHashMap w3
                       | (Inr u, w3) \<Rightarrow>
                           mergeFolderRecursive_entries descend P sourcePath destPath entries
                             (insert key fileHashMap) w3)
                    else
                      mergeFolderRecursive_entries descend P sourcePath destPath entries
                        fileHashMap w2)))"

fun mergeFolderRecursive ::
  "nat \<Rightarrow> platform \<Rightarrow> string \<Rightarrow> string \<Rightarrow> string set \<Rightarrow> world \<Rightarrow>
   (error option \<times> string set \<times> world) option" where
  "mergeFolderRecursive 0 P sourcePath destPath fileHashMap w = None"
| "mergeFolderRecursive (Suc depth) P sourcePath destPath fileHashMap w =
     (case io_mkdir destPath w of
        (Inl e, w1) \<Rightarrow> Some (Some e, fileHashMap, w1)
      | (Inr u, w1) \<Rightarrow>
          (case io_readdir sourcePath w1 of
             (Inl e, w2) \<Rightarrow> Some (Some e, fileHashMap, w2)
           | (Inr entries, w2) \<Rightarrow>
               (case mergeFolderRecursive_entries
                       (\<lambda>s d m v. mergeFolderRecursive depth P s d m v)
                       P sourcePath destPath entries fileHashMap w2 of
                  None \<Rightarrow> None
                | Some (fileHashMap1, w3) \<Rightarrow> Some (None, fileHashMap1, w3))))"

section \<open>Updates of the run state\<close>

definition set_currentIndex :: "nat \<Rightarrow> world \<Rightarrow> world" where
  "set_currentIndex i w = w\<lparr>st := (st w)\<lparr>currentIndex := i\<rparr>\<rparr>"

definition add_dedup :: "string \<Rightarrow> world \<Rightarrow> world" where
  "add_dedup key w = w\<lparr>st := (st w)\<lparr>deduplicationMap := insert key (deduplicationMap (st w))\<rparr>\<rparr>"

definition add_copiedFolder :: "string \<Rightarrow> world \<Rightarrow> world" where
  "add_copiedFolder p w = w\<lparr>st := (st w)\<lparr>copiedFolders := insert p (copiedFolders (st w))\<rparr>\<rparr>"

definition push_report :: "report \<Rightarrow> world \<Rightarrow> world" where
  "push_report r w = w\<lparr>st := (st w)\<lparr>folderReport := folderReport (st w) @ [r]\<rparr>\<rparr>"

definition bump_scanned :: "world \<Rightarrow> world" where
  "bump_scanned w =
     w\<lparr>st := (st w)\<lparr>stats := (stats (st w))\<lparr>scanned := scanned (stats (st w)) + 1\<rparr>\<rparr>\<rparr>"

definition bump_copied :: "nat \<Rightarrow> world \<Rightarrow> world" where
  "bump_copied n w =
     w\<lparr>st := (st w)\<lparr>stats := (stats (st w))\<lparr>copied := copied (stats (st w)) + n\<rparr>\<rparr>\<rparr>"

definition bump_duplicates :: "nat \<Rightarrow> world \<Rightarrow> world" where
  "bump_duplicates n w =
     w\<lparr>st := (st w)\<lparr>stats := (stats (st w))\<lparr>duplicates := duplicates (stats (st w)) + n\<rparr>\<rparr>\<rparr>"

definition bump_sizeCopied :: "nat \<Rightarrow> world \<Rightarrow> world" where
  "bump_sizeCopied n w =
     w\<lparr>st := (st w)\<lparr>stats := (stats (st w))\<lparr>sizeCopied := sizeCopied (stats (st w)) + n\<rparr>\<rparr>\<rparr>"

text \<open>\<open>err.message\<close>; the text of a file-system error is not modelled.\<close>

fun message_of :: "error \<Rightarrow> string" where
  "message_of Paused = ''Paused''"
| "message_of IOError = ''I/O error''"
| "message_of TypeError = ''TypeError''"

section \<open>Indexing the destination\<close>

text \<open>The inner function \<open>scanDestinationRecursive\<close> of \<open>start-process\<close>.\<close>

fun scanDestinationRecursive_entries ::
  "(string \<Rightarrow> string set \<Rightarrow> world \<Rightarrow> (string set \<times> world) option) \<Rightarrow> platform \<Rightarrow> string \<Rightarrow>
   dirent list \<Rightarrow> string set \<Rightarrow> world \<Rightarrow> (string set \<times> world) option" where
  "scanDestinationRecursive_entries descend P dirPath [] destinationMap w =
     Some (destinationMap, w)"
| "scanDestinationRecursive_entries descend P dirPath (entry # entries) destinationMap w =
     (if paused (st w) then Some (destinationMap, w)
      else
        let fullPath = path_join [dirPath, d_name entry] in
        if isDirectory entry then
          (case descend fullPath destinationMap w of
             None \<Rightarrow> None
           | Some (destinationMap1, w1) \<Rightarrow>
               scanDestinationRecursive_entries descend P dirPath entries destinationMap1 w1)
        else
          (case io_stat fullPath w of
             (Inl e, w1) \<Rightarrow>
               scanDestinationRecursive_entries descend P dirPath entries destinationMap w1
           | (Inr stat, w1) \<Rightarrow>
               (case io_hashFile P fullPath w1 of
                  (Inl e, w2) \<Rightarrow>
                    scanDestinationRecursive_entries descend P dirPath entries destinationMap w2
                | (Inr hash, w2) \<Rightarrow>
                    scanDestinationRecursive_entries descend P dirPath entries
                      (insert (contentKey (node_size stat) hash) destinationMap) w2)))"

fun scanDestinationRecursive ::
  "nat \<Rightarrow> platform \<Rightarrow> string \<Rightarrow> string set \<Rightarrow> world \<Rightarrow> (string set \<times> world) option" where
  "scanDestinationRecursive 0 P dirPath destinationMap w = None"
| "scanDestinationRecursive (Suc depth) P dirPath destinationMap w =
     (case io_readdir dirPath w of
        (Inl e, w1) \<Rightarrow> Some (destinationMap, w1)
      | (Inr entries, w1) \<Rightarrow>
          scanDestinationRecursive_entries
            (\<lambda>p m v. scanDestinationRecursive depth P p m v) P dirPath entries destinationMap w1)"

text \<open>
  The signatures of the immediate subdirectories of the destination; the same loop is in
  \<open>start-process\<close> and in \<open>resume-process\<close>.
\<close>

fun destinationSignatures_entries ::
  "nat \<Rightarrow> platform \<Rightarrow> string \<Rightarrow> string list \<Rightarrow> dirent list \<Rightarrow> string set \<Rightarrow> world \<Rightarrow>
   (string set \<times> world) option" where
  "destinationSignatures_entries depth P destinationFolder allowedExtensions [] sigs w =
     Some (sigs, w)"
| "destinationSignatures_entries depth P destinationFolder allowedExtensions
     (entry # entries) sigs w =
     (if paused (st w) then Some (sigs, w)
      else if isDirectory entry then
        (let fullPath = path_join [destinationFolder, d_name entry] in
         case scanDestinationFolder depth P fullPath allowedExtensions [] w of
           None \<Rightarrow> None
         | Some (destFolderInfo, w1) \<Rightarrow>
             destinationSignatures_entries depth P destinationFolder allowedExtensions entries
               (insert (buildDestinationFolderSignature P destFolderInfo) sigs) w1)
      else
        destinationSignatures_entries depth P destinationFolder allowedExtensions entries sigs w)"

definition destinationSignatures ::
  "nat \<Rightarrow> platform \<Rightarrow> string \<Rightarrow> string list \<Rightarrow> world \<Rightarrow> (string set \<times> world) option" where
  "destinationSignatures depth P destinationFolder allowedExtensions w =
     (case io_readdir destinationFolder w of
        (Inl e, w1) \<Rightarrow> Some ({}, w1)
      | (Inr destFolders, w1) \<Rightarrow>
          destinationSignatures_entries depth P destinationFolder allowedExtensions
            destFolders {} w1)"

text \<open>
  The loop that hashes the files of a recursive directory listing into a map of content
  keys. It joins the directory with the bare name of each entry. It is written three
  times: for the destination folder of a group, for the target of \<open>confirm-merge\<close> and for
  the destination in \<open>resume-process\<close>.
\<close>

fun hash_listed :: "platform \<Rightarrow> string \<Rightarrow> dirent list \<Rightarrow> string set \<Rightarrow> world \<Rightarrow> string set \<times> world" where
  "hash_listed P folder [] fileHashMap w = (fileHashMap, w)"
| "hash_listed P folder (entry # entries) fileHashMap w =
     (if \<not> isDirectory entry then
        (let fullPath = path_join [folder, d_name entry] in
         case io_stat fullPath w of
           (Inl e, w1) \<Rightarrow> hash_listed P folder entries fileHashMap w1
         | (Inr stat, w1) \<Rightarrow>
             (case io_hashFile P fullPath w1 of
                (Inl e, w2) \<Rightarrow> hash_listed P folder entries fileHashMap w2
              | (Inr hash, w2) \<Rightarrow>
                  hash_listed P folder entries
                    (insert (contentKey (node_size stat) hash) fileHashMap) w2))
      else hash_listed P folder entries fileHashMap w)"

section \<open>The folder merge of start-process\<close>

type_synonym folderData = "signature \<times> folderInfo"

text \<open>\<open>folderGroupsByName\<close> is a \<open>Map\<close>: it is iterated in the order in which its keys were added.\<close>

fun group_push ::
  "string \<Rightarrow> folderData \<Rightarrow> (string \<times> folderData list) list \<Rightarrow> (string \<times> folderData list) list" where
  "group_push k x [] = [(k, [x])]"
| "group_push k x ((k1, xs) # groups) =
     (if k1 = k then (k1, xs @ [x]) # groups else (k1, xs) # group_push k x groups)"

fun group_leaf_folders ::
  "platform \<Rightarrow> folderInfo list \<Rightarrow> (string \<times> folderData list) list \<Rightarrow> world \<Rightarrow>
   (string \<times> folderData list) list \<times> world" where
  "group_leaf_folders P [] groups w = (groups, w)"
| "group_leaf_folders P (folderInfo # leafFolders) groups w =
     (if paused (st w) then (groups, w)
      else
        (case buildFolderSignature P folderInfo w of
           (signature, w1) \<Rightarrow>
             if paused (st w1) then (groups, w1)
             else
               let folderName = basename (d_path folderInfo);
                   normalizedName = normalizeFolderName folderName
               in group_leaf_folders P leafFolders
                    (group_push normalizedName (signature, folderInfo) groups) w1))"

text \<open>The body of the loop over the members of one group.\<close>

definition merge_member ::
  "nat \<Rightarrow> platform \<Rightarrow> string set \<Rightarrow> string \<Rightarrow> folderData \<Rightarrow> string set \<Rightarrow> world \<Rightarrow>
   (string set \<times> world) option" where
  "merge_member depth P destinationFolderSignatures destFolderPath folderData fileHashMap w =
     (let folderKey = sig_hash (fst folderData);
          sourcePath = d_path (snd folderData)
      in
      if folderKey \<in> destinationFolderSignatures then
        Some (fileHashMap,
          push_report \<lparr>r_sourcePath = sourcePath, r_destinationPath = destFolderPath,
                       r_status = ''Duplicate (Exists in Destination)''\<rparr>
            (bump_duplicates (sig_fileCount (fst folderData)) (add_copiedFolder sourcePath w)))
      else
        (case mergeFolderRecursive depth P sourcePath destFolderPath fileHashMap w of
           None \<Rightarrow> None
         | Some (None, fileHashMap1, w1) \<Rightarrow>
             Some (fileHashMap1,
               push_report \<lparr>r_sourcePath = sourcePath, r_destinationPath = destFolderPath,
                            r_status = ''Copied''\<rparr>
                 (bump_sizeCopied (sig_totalSize (fst folderData))
                    (bump_copied (sig_fileCount (fst folderData))
                       (add_copiedFolder sourcePath w1))))
         | Some (Some err, fileHashMap1, w1) \<Rightarrow>
             Some (fileHashMap1,
               push_report \<lparr>r_sourcePath = sourcePath, r_destinationPath = destFolderPath,
                            r_status = ''Error: '' @ message_of err\<rparr> w1)))"

fun merge_members ::
  "nat \<Rightarrow> platform \<Rightarrow> string set \<Rightarrow> string \<Rightarrow> folderData list \<Rightarrow> string set \<Rightarrow> world \<Rightarrow>
   (string set \<times> world) option" where
  "merge_members depth P destinationFolderSignatures destFolderPath [] fileHashMap w =
     Some (fileHashMap, w)"
| "merge_members depth P destinationFolderSignatures destFolderPath (folderData # folderGroup)
     fileHashMap w =
     (if paused (st w) then Some (fileHashMap, w)
      else
        (case merge_member depth P destinationFolderSignatures destFolderPath folderData
                fileHashMap w of
           None \<Rightarrow> None
         | Some (fileHashMap1, w1) \<Rightarrow>
             merge_members depth P destinationFolderSignatures destFolderPath folderGroup
               fileHashMap1 w1))"

text \<open>The loop over the groups.\<close>

fun merge_groups ::
  "nat \<Rightarrow> platform \<Rightarrow> string \<Rightarrow> string set \<Rightarrow> (string \<times> folderData list) list \<Rightarrow> world \<Rightarrow>
   world option" where
  "merge_groups depth P destinationFolder destinationFolderSignatures [] w = Some w"
| "merge_groups depth P destinationFolder destinationFolderSignatures
     ((normalizedName, folderGroup) # groups) w =
     (if paused (st w) then Some w
      else
        let destFolderPath = path_join [destinationFolder, normalizedName] in
        (case io_stat destFolderPath w of
           (Inr Dir, w1) \<Rightarrow>
             (case (case io_readdir_recursive destFolderPath w1 of
                      (Inl e, w2) \<Rightarrow> ({}, w2)
                    | (Inr existingFiles, w2) \<Rightarrow> hash_listed P destFolderPath existingFiles {} w2) of
                (fileHashMap, w3) \<Rightarrow>
                  (case merge_members depth P destinationFolderSignatures destFolderPath
                          folderGroup fileHashMap w3 of
                     None \<Rightarrow> None
                   | Some (fileHashMap1, w4) \<Rightarrow>
                       merge_groups depth P destinationFolder destinationFolderSignatures
                         groups w4))
         | (other, w1) \<Rightarrow>
             (case io_mkdir destFolderPath w1 of
                (Inl e, w2) \<Rightarrow>
                  merge_groups depth P destinationFolder destinationFolderSignatures groups w2
              | (Inr u, w2) \<Rightarrow>
                  (case merge_members depth P destinationFolderSignatures destFolderPath
                          folderGroup {} w2 of
                     None \<Rightarrow> None
                   | Some (fileHashMap1, w3) \<Rightarrow>
                       merge_groups depth P destinationFolder destinationFolderSignatures
                         groups w3))))"

text \<open>Grouping the leaf folders and merging the groups (lines 406 to 508 of the source).\<close>

definition folder_merge ::
  "nat \<Rightarrow> platform \<Rightarrow> string \<Rightarrow> string set \<Rightarrow> world \<Rightarrow> world option" where
  "folder_merge depth P destinationFolder destinationFolderSignatures w =
     (case group_leaf_folders P (filter d_isLeaf (folderList (st w))) [] w of
        (folderGroupsByName, w1) \<Rightarrow>
          merge_groups depth P destinationFolder destinationFolderSignatures
            folderGroupsByName w1)"

section \<open>The per-file pass\<close>

text \<open>The paths of the files that lie in a folder of \<open>copiedFolders\<close>.\<close>

definition processedFiles :: "state \<Rightarrow> string set" where
  "processedFiles s =
     set (map f_path
       (filter (\<lambda>file. \<exists>folderPath \<in> copiedFolders s.
                  f_folderPath file = folderPath \<or> prefix (folderPath @ [sep]) (f_path file))
          (fileList s)))"

text \<open>
  The \<open>while (true)\<close> loop that looks for a free name. It need not end; \<open>None\<close> is the
  loop that does not return.
\<close>

partial_function (option) unique_path ::
  "string \<Rightarrow> string \<Rightarrow> nat \<Rightarrow> world \<Rightarrow> (string \<times> world) option" where
  "unique_path fileName uniquePath counter w =
     (if fst (io_access uniquePath w) then
        unique_path fileName
          (path_join [dirname uniquePath,
             basename_ext fileName (extname fileName) @ ''_'' @ dec counter @ extname fileName])
          (counter + 1) (snd (io_access uniquePath w))
      else Some (uniquePath, snd (io_access uniquePath w)))"

declare unique_path.simps [code]

text \<open>
  From the computation of the destination folder to the copy (lines 554 to 595 of the
  source, and again 864 to 905); \<open>destFolderPathOf\<close> is the one place where the two
  copies differ.
\<close>

definition place_file ::
  "(string \<Rightarrow> string \<Rightarrow> string) \<Rightarrow> string \<Rightarrow> fileInfo \<Rightarrow> world \<Rightarrow> world option" where
  "place_file destFolderPathOf destinationFolder file w =
     (let fileName = f_name file;
          destFolderPath = destFolderPathOf destinationFolder (f_folderRelativePath file)
      in
      case io_mkdir destFolderPath w of
        (made, w1) \<Rightarrow>
          let destPath = path_join [destFolderPath, fileName] in
          (case io_access destPath w1 of
             (True, w2) \<Rightarrow> Some (bump_duplicates 1 w2)
           | (False, w2) \<Rightarrow>
               (case unique_path fileName destPath 1 w2 of
                  None \<Rightarrow> None
                | Some (uniquePath, w3) \<Rightarrow>
                    (case io_copyFile (f_path file) uniquePath w3 of
                       (Inl e, w4) \<Rightarrow> Some w4
                     | (Inr u, w4) \<Rightarrow>
                         Some (bump_sizeCopied (f_size file) (bump_copied 1 w4))))))"

datatype 'a step = Break 'a | Continue 'a

text \<open>The body of the loop over \<open>state.fileList\<close>, after the check of the flag at its head.\<close>

definition file_body ::
  "platform \<Rightarrow> (string \<Rightarrow> string \<Rightarrow> string) \<Rightarrow> string \<Rightarrow> string set \<Rightarrow> string set \<Rightarrow> nat \<Rightarrow>
   fileInfo \<Rightarrow> world \<Rightarrow> world step option" where
  "file_body P destFolderPathOf destinationFolder destinationMap processed i file w =
     (if f_path file \<in> processed then Some (Continue w)
      else
        (case io_hashFile P (f_path file) (bump_scanned w) of
           (Inl e, w1) \<Rightarrow> Some (Continue w1)
         | (Inr hash, w1) \<Rightarrow>
             if paused (st w1) then Some (Break (set_currentIndex i w1))
             else
               let key = contentKey (f_size file) hash in
               if key \<in> deduplicationMap (st w1) \<or> key \<in> destinationMap
               then Some (Continue (bump_duplicates 1 w1))
               else
                 (case place_file destFolderPathOf destinationFolder file (add_dedup key w1) of
                    None \<Rightarrow> None
                  | Some w2 \<Rightarrow> Some (Continue w2))))"

text \<open>
  \<open>for (let i = ...; i < state.fileList.length; i++)\<close>: the second list is the part of
  \<open>state.fileList\<close> from index \<open>i\<close> on.
\<close>

fun file_loop ::
  "platform \<Rightarrow> (string \<Rightarrow> string \<Rightarrow> string) \<Rightarrow> string \<Rightarrow> string set \<Rightarrow> string set \<Rightarrow> nat \<Rightarrow>
   fileInfo list \<Rightarrow> world \<Rightarrow> world option" where
  "file_loop P destFolderPathOf destinationFolder destinationMap processed i [] w = Some w"
| "file_loop P destFolderPathOf destinationFolder destinationMap processed i (file # files) w =
     (if paused (st w) then Some (set_currentIndex i w)
      else
        (case file_body P destFolderPathOf destinationFolder destinationMap processed i file w of
           None \<Rightarrow> None
         | Some (Break w1) \<Rightarrow> Some w1
         | Some (Continue w1) \<Rightarrow>
             file_loop P destFolderPathOf destinationFolder destinationMap processed (Suc i)
               files w1))"

definition process_complete :: "world \<Rightarrow> world" where
  "process_complete w =
     (if \<not> paused (st w)
      then w\<lparr>outbox := outbox w @ [ProcessComplete (stats (st w)) (folderReport (st w)) None]\<rparr>
      else w)"

section \<open>start-process\<close>

definition reset_state :: "world \<Rightarrow> world" where
  "reset_state w =
     w\<lparr>st := \<lparr>paused = False, currentIndex = 0, deduplicationMap = {}, fileList = [],
               folderList = [], copiedFolders = {}, folderReport = [],
               stats = \<lparr>scanned = 0, copied = 0, duplicates = 0, sizeCopied = 0\<rparr>\<rparr>\<rparr>"

fun scan_sources :: "nat \<Rightarrow> string list \<Rightarrow> string list \<Rightarrow> world \<Rightarrow> world option" where
  "scan_sources depth allowedExtensions [] w = Some w"
| "scan_sources depth allowedExtensions (folder # sourceFolders) w =
     (if paused (st w) then Some w
      else
        (case scanDirectory depth allowedExtensions folder [] folder w of
           None \<Rightarrow> None
         | Some w1 \<Rightarrow> scan_sources depth allowedExtensions sourceFolders w1))"

definition index_destination_start ::
  "nat \<Rightarrow> platform \<Rightarrow> string \<Rightarrow> string list \<Rightarrow> world \<Rightarrow> (string set \<times> string set \<times> world) option" where
  "index_destination_start depth P destinationFolder allowedExtensions w =
     (case scanDestinationRecursive depth P destinationFolder {} w of
        None \<Rightarrow> None
      | Some (destinationMap, w1) \<Rightarrow>
          (case destinationSignatures depth P destinationFolder allowedExtensions w1 of
             None \<Rightarrow> None
           | Some (destinationFolderSignatures, w2) \<Rightarrow>
               Some (destinationMap, destinationFolderSignatures, w2)))"

definition start_process ::
  "nat \<Rightarrow> platform \<Rightarrow> string list \<Rightarrow> string \<Rightarrow> string list \<Rightarrow> world \<Rightarrow> world option" where
  "start_process depth P sourceFolders destinationFolder extensions w =
     (let allowedExtensions = map toLowerCase extensions in
      case scan_sources depth allowedExtensions sourceFolders (reset_state w) of
        None \<Rightarrow> None
      | Some w1 \<Rightarrow>
          (case index_destination_start depth P destinationFolder allowedExtensions w1 of
             None \<Rightarrow> None
           | Some (destinationMap, destinationFolderSignatures, w2) \<Rightarrow>
               (case folder_merge depth P destinationFolder destinationFolderSignatures w2 of
                  None \<Rightarrow> None
                | Some w3 \<Rightarrow>
                    (case file_loop P destFolderPath_start destinationFolder destinationMap
                            (processedFiles (st w3)) 0 (fileList (st w3)) w3 of
                       None \<Rightarrow> None
                     | Some w4 \<Rightarrow> Some (process_complete w4)))))"

section \<open>resume-process\<close>

definition index_destination_resume ::
  "nat \<Rightarrow> platform \<Rightarrow> string \<Rightarrow> string list \<Rightarrow> world \<Rightarrow> (string set \<times> string set \<times> world) option" where
  "index_destination_resume depth P destinationFolder allowedExtensions w =
     (case io_readdir_recursive destinationFolder w of
        (Inl e, w1) \<Rightarrow> Some ({}, {}, w1)
      | (Inr destFiles, w1) \<Rightarrow>
          (case hash_listed P destinationFolder destFiles {} w1 of
             (destinationMap, w2) \<Rightarrow>
               (case destinationSignatures depth P destinationFolder allowedExtensions w2 of
                  None \<Rightarrow> None
                | Some (destinationFolderSignatures, w3) \<Rightarrow>
                    Some (destinationMap, destinationFolderSignatures, w3))))"

definition resume_process ::
  "nat \<Rightarrow> platform \<Rightarrow> string list \<Rightarrow> string \<Rightarrow> string list \<Rightarrow> world \<Rightarrow> world option" where
  "resume_process depth P sourceFolders destinationFolder extensions w =
     (let allowedExtensions = map toLowerCase extensions in
      case index_destination_resume depth P destinationFolder allowedExtensions
             (set_paused False w) of
        None \<Rightarrow> None
      | Some (destinationMap, destinationFolderSignatures, w1) \<Rightarrow>
          (case file_loop P destFolderPath_resume destinationFolder destinationMap
                  (processedFiles (st w1)) (currentIndex (st w1))
                  (drop (currentIndex (st w1)) (fileList (st w1))) w1 of
             None \<Rightarrow> None
           | Some w2 \<Rightarrow> Some (process_complete w2)))"

section \<open>confirm-merge\<close>

text \<open>
  A group as the window sends it back: its normalised name and its folders, of which only
  the paths are read.
\<close>

record mergeRequest =
  q_name :: string
  q_folders :: "string list"

fun confirm_members ::
  "nat \<Rightarrow> platform \<Rightarrow> string \<Rightarrow> string list \<Rightarrow> string set \<Rightarrow> world \<Rightarrow> (string set \<times> world) option" where
  "confirm_members depth P targetFolder [] fileHashMap w = Some (fileHashMap, w)"
| "confirm_members depth P targetFolder (folder # folders) fileHashMap w =
     (if paused (st w) then Some (fileHashMap, w)
      else if folder = targetFolder then
        confirm_members depth P targetFolder folders fileHashMap w
      else
        (case mergeFolderRecursive depth P folder targetFolder fileHashMap w of
           None \<Rightarrow> None
         | Some (Some err, fileHashMap1, w1) \<Rightarrow>
             confirm_members depth P targetFolder folders fileHashMap1 w1
         | Some (None, fileHashMap1, w1) \<Rightarrow>
             confirm_members depth P targetFolder folders fileHashMap1 (io_rm folder w1)))"

fun confirm_groups ::
  "nat \<Rightarrow> platform \<Rightarrow> mergeRequest list \<Rightarrow> world \<Rightarrow> (error option \<times> world) option" where
  "confirm_groups depth P [] w = Some (None, w)"
| "confirm_groups depth P (folderInfo # foldersToMerge) w =
     (if paused (st w) then Some (None, w)
      else
        (case q_folders folderInfo of
           [] \<Rightarrow> Some (Some TypeError, w)
         | targetFolder # others \<Rightarrow>
             (case (case io_readdir_recursive targetFolder w of
                      (Inl e, w1) \<Rightarrow> ({}, w1)
                    | (Inr existingFiles, w1) \<Rightarrow> hash_listed P targetFolder existingFiles {} w1) of
                (fileHashMap, w2) \<Rightarrow>
                  (case confirm_members depth P targetFolder (q_folders folderInfo)
                          fileHashMap w2 of
                     None \<Rightarrow> None
                   | Some (fileHashMap1, w3) \<Rightarrow> confirm_groups depth P foldersToMerge w3))))"

definition confirm_merge ::
  "nat \<Rightarrow> platform \<Rightarrow> string \<Rightarrow> mergeRequest list \<Rightarrow> world \<Rightarrow> world option" where
  "confirm_merge depth P destinationFolder foldersToMerge w =
     (case confirm_groups depth P foldersToMerge (set_paused False w) of
        None \<Rightarrow> None
      | Some (thrown, w1) \<Rightarrow>
          Some (w1\<lparr>outbox := outbox w1 @
                   [MergeComplete (stats (st w1)) (map_option message_of thrown)]\<rparr>))"

section \<open>The specification's resume\<close>


section \<open>Relations between the world before and after\<close>

text \<open>Nothing changed but the pause flag and the time of the pause message.\<close>

definition quiet :: "world \<Rightarrow> world \<Rightarrow> bool" where
  "quiet w w' =
     (disk w' = disk w \<and> copyLog w' = copyLog w \<and> outbox w' = outbox w \<and>
      currentIndex (st w') = currentIndex (st w) \<and>
      deduplicationMap (st w') = deduplicationMap (st w) \<and>
      fileList (st w') = fileList (st w) \<and> folderList (st w') = folderList (st w) \<and>
      copiedFolders (st w') = copiedFolders (st w) \<and>
      folderReport (st w') = folderReport (st w) \<and> stats (st w') = stats (st w))"



text \<open>What the folder merge wrote to the state is unchanged.\<close>

definition folders_kept :: "world \<Rightarrow> world \<Rightarrow> bool" where
  "folders_kept w w' =
     (fileList (st w') = fileList (st w) \<and> folderList (st w') = folderList (st w) \<and>
      copiedFolders (st w') = copiedFolders (st w) \<and>
      folderReport (st w') = folderReport (st w))"

text \<open>
  The copies made between two worlds are copies of files of the list that are not in an
  absorbed folder, each to the file's own name in its destination folder.
\<close>

definition copies_of ::
  "(string \<Rightarrow> string \<Rightarrow> string) \<Rightarrow> string \<Rightarrow> string set \<Rightarrow> fileInfo list \<Rightarrow> world \<Rightarrow> world \<Rightarrow> bool" where
  "copies_of destFolderPathOf destinationFolder processed files w w' =
     (\<exists>new. copyLog w' = copyLog w @ new \<and>
        (\<forall>c\<in>set new. \<exists>file\<in>set files.
           f_path file \<notin> processed \<and> fst c = f_path file \<and>
           fst (snd c) =
             path_join [destFolderPathOf destinationFolder (f_folderRelativePath file),
                        f_name file]))"

definition file_pass_step ::
  "(string \<Rightarrow> string \<Rightarrow> string) \<Rightarrow> string \<Rightarrow> string set \<Rightarrow> fileInfo list \<Rightarrow> world \<Rightarrow> world \<Rightarrow> bool" where
  "file_pass_step destFolderPathOf destinationFolder processed files w w' =
     (folders_kept w w' \<and> copies_of destFolderPathOf destinationFolder processed files w w')"

section \<open>Example trees\<close>

definition fresh_state :: state where
  "fresh_state =
     \<lparr>paused = False, currentIndex = 0, deduplicationMap = {}, fileList = [],
      folderList = [], copiedFolders = {}, folderReport = [],
      stats = \<lparr>scanned = 0, copied = 0, duplicates = 0, sizeCopied = 0\<rparr>\<rparr>"

definition world_on :: "filesystem \<Rightarrow> nat option \<Rightarrow> world" where
  "world_on d k = \<lparr>st = fresh_state, disk = d, copyLog = [], outbox = [], pauseIn = k\<rparr>"


definition file_in :: "string \<Rightarrow> string \<Rightarrow> string \<Rightarrow> nat \<Rightarrow> fileInfo" where
  "file_in root folder name sz =
     \<lparr>f_path = path_join [root, folder, name], f_size = sz, f_name = name,
      f_relativePath = path_join [folder, name], f_folderPath = path_join [root, folder],
      f_folderRelativePath = folder\<rparr>"




text \<open>One handler after another; what is read off a resulting world.\<close>

definition run_then :: "world option \<Rightarrow> (world \<Rightarrow> world option) \<Rightarrow> world option" where
  "run_then r f = (case r of None \<Rightarrow> None | Some w \<Rightarrow> f w)"


definition paused_at :: "world \<Rightarrow> bool \<times> nat" where
  "paused_at w = (paused (st w), currentIndex (st w))"



text \<open>A source with two files and an empty subdirectory, so that it is not a leaf folder.\<close>

definition flat_disk :: filesystem where
  "flat_disk =
     [(''/s'', Dir), (''/s/a'', File ''A'' True), (''/s/b'', File ''B'' True), (''/s/e'', Dir),
      (''/d'', Dir)]"

text \<open>A destination that already has a file \<open>a\<close>, with other bytes than the source's.\<close>

definition collision_disk :: filesystem where
  "collision_disk =
     [(''/s'', Dir), (''/s/a'', File ''new'' True), (''/s/b'', File ''B'' True),
      (''/d'', Dir), (''/d/a'', File ''old'' True)]"

text \<open>Two leaf folders of one group, each with a file \<open>a\<close>, of different bytes.\<close>

definition clash_disk :: filesystem where
  "clash_disk =
     [(''/s'', Dir), (''/s/T'', Dir), (''/s/T/a'', File ''x'' True),
      (''/s/T_2'', Dir), (''/s/T_2/a'', File ''y'' True), (''/d'', Dir)]"

text \<open>A destination with the leaf folders \<open>P\<close> and \<open>P_bak\<close>.\<close>

definition photos_disk :: filesystem where
  "photos_disk =
     [(''/d'', Dir), (''/d/P'', Dir), (''/d/P/a'', File ''1'' True),
      (''/d/P_bak'', Dir), (''/d/P_bak/b'', File ''2'' True), (''/d/P_bak/c'', File ''3'' True)]"


section \<open>Properties\<close>

subsection \<open>Destination folder of a file\<close>

lemma normalizeFolderName_empty: "normalizeFolderName [] = []"
  by (simp add: normalizeFolderName_def)

lemma nonempty_normalized_parts:
  "filter (\<lambda>a. a \<noteq> []) (map normalizeFolderName (filter (\<lambda>p. p \<noteq> []) parts)) =
   filter (\<lambda>a. a \<noteq> []) (map normalizeFolderName parts)"
  by (induction parts) (simp_all add: normalizeFolderName_empty)

text \<open>
  Claim C10. For every file record the per-file pass of \<open>start-process\<close> and that of
  \<open>resume-process\<close> compute the same destination folder: \<open>start-process\<close> drops the empty
  segments of the folder-relative path before normalising them and \<open>resume-process\<close>
  does not, but \<open>path.join\<close> ignores empty arguments, also those that a segment such as
  \<open>_x\<close> normalises to.
\<close>

theorem destFolderPath_start_eq_resume:
  "destFolderPath_start destinationFolder folderRelativePath =
   destFolderPath_resume destinationFolder folderRelativePath"
proof -
  have "path_join (destinationFolder # map normalizeFolderName (filter (\<lambda>p. p \<noteq> []) parts)) =
        path_join (destinationFolder # map normalizeFolderName parts)" for parts
    by (simp add: path_join_def nonempty_normalized_parts)
  then show ?thesis
    by (simp add: destFolderPath_start_def destFolderPath_resume_def Let_def)
qed

theorem destFolderPath_start_eq_resume_witness:
  "destFolderPath_start ''/d'' ''a_1//_x/b'' = destFolderPath_resume ''/d'' ''a_1//_x/b'' \<and>
   destFolderPath_resume ''/d'' ''a_1//_x/b'' = ''/d/a/b''"
proof -
  have "destFolderPath_resume ''/d'' ''a_1//_x/b'' = ''/d/a/b''" by code_simp
  then show ?thesis
    using destFolderPath_start_eq_resume [of "''/d''" "''a_1//_x/b''"] by simp
qed

subsection \<open>hashFile\<close>

lemma hashFile_feed_flag_up:
  "PauseProcess \<in> set evs \<or> flag \<Longrightarrow> ClearPause \<notin> set evs \<Longrightarrow>
   fst (hashFile_feed evs (flag, hash))"
proof (induction evs arbitrary: flag hash)
  case Nil
  then show ?case by simp
next
  case (Cons ev evs)
  then show ?case by (cases ev) auto
qed

text \<open>
  As long as nothing lowers the flag again, a pause raised before the stream ends makes
  \<open>hashFile\<close> fail with \<open>Paused\<close>.
\<close>

lemma hashFile_cancelled_while_flag_up:
  assumes "PauseProcess \<in> set evs" and "ClearPause \<notin> set evs"
  shows "fst (hashFile P flag evs End) = Inl Paused"
proof -
  obtain f h where fh: "hashFile_feed evs (flag, []) = (f, h)"
    by (cases "hashFile_feed evs (flag, [])")
  with hashFile_feed_flag_up [of evs flag "[]"] assms have f by simp
  with fh show ?thesis by (simp add: hashFile_def)
qed

text \<open>
  Claim C2 says that \<open>hashFile\<close> fails with a cancellation whenever the pause flag is
  raised at any point before the stream completes, and never resolves with a digest of a
  part of the file. The code tests the flag only when a chunk arrives and when the stream
  ends. When the flag is raised after the first chunk and lowered again before the end
  (a \<open>pause-process\<close> message followed by a \<open>resume-process\<close> message while the file is
  being read), the chunks that arrived in between are skipped and the promise resolves:
  for the file \<open>abc\<close> read in three chunks the result is the digest of \<open>ac\<close>.
\<close>

theorem hashFile_partial_digest:
  "hashFile P False [Data ''a'', PauseProcess, Data ''b'', ClearPause, Data ''c''] End =
     (Inr (sha256 P ''ac''), False) \<and>
   stream_bytes [Data ''a'', PauseProcess, Data ''b'', ClearPause, Data ''c''] = ''abc''"
  by (simp add: hashFile_def)

subsection \<open>Folder signatures\<close>





text \<open>
  When \<open>localeCompare\<close> tells all strings apart, the files of one folder, whose names are
  distinct, satisfy the condition.
\<close>

lemma distinct_names_told_apart:
  assumes "inj (sortKey P)" and "distinct (map fh_name xs)"
  shows "\<forall>x\<in>set xs. \<forall>y\<in>set xs. sortKey P (fh_name x) = sortKey P (fh_name y) \<longrightarrow> x = y"
proof (intro ballI impI)
  fix x y assume "x \<in> set xs" "y \<in> set xs" "sortKey P (fh_name x) = sortKey P (fh_name y)"
  with assms(1) have "fh_name x = fh_name y" by (simp add: inj_eq)
  with assms(2) \<open>x \<in> set xs\<close> \<open>y \<in> set xs\<close> show "x = y"
    by (meson distinct_map inj_onD)
qed



subsection \<open>What the awaited operations leave unchanged\<close>

lemma quiet_refl: "quiet w w"
  by (simp add: quiet_def)


lemma quiet_tick: "quiet w (tick w)"
  by (simp add: quiet_def tick_def set_paused_def elapse_def)



lemma quiet_io_access: "io_access p w = (r, w') \<Longrightarrow> quiet w w'"
  by (auto simp: io_access_def quiet_tick)



lemma quiet_io_hashFile: "io_hashFile P p w = (r, w') \<Longrightarrow> quiet w w'"
  by (auto simp: io_hashFile_def Let_def quiet_def set_paused_def elapse_def split: prod.splits)


lemma io_copyFile_log:
  assumes "io_copyFile src dst w = (r, w')"
  shows "(case r of Inl e \<Rightarrow> copyLog w' = copyLog w
          | Inr u \<Rightarrow> \<exists>bytes r. map_of (disk w) src = Some (File bytes r) \<and>
                      copyLog w' = copyLog w @ [(src, dst, bytes)])"
  using assms
  by (auto simp: io_copyFile_def fs_copyFile_def tick_def set_paused_def elapse_def
      split: sum.splits prod.splits option.splits node.splits bool.splits if_splits)


lemma tick_fields [simp]:
  "disk (tick w) = disk w" "copyLog (tick w) = copyLog w" "outbox (tick w) = outbox w"
  "stats (st (tick w)) = stats (st w)"
  by (simp_all add: tick_def set_paused_def elapse_def)

subsection \<open>mergeFolderRecursive\<close>










subsection \<open>A member of a group whose signature is in the destination\<close>



text \<open>
  The number of files of a signature is the number of files that were hashed; it is the
  number of the folder's files when all of them can be read and no pause arrives.
\<close>

lemma hash_files_length:
  assumes "pauseIn w = None" and "\<not> paused (st w)"
    and "\<forall>file\<in>set files. \<exists>bytes. map_of (disk w) (f_path file) = Some (File bytes True)"
  shows "length (fst (hash_files P files acc w)) = length acc + length files"
  using assms
proof (induction files arbitrary: acc w)
  case Nil
  then show ?case by simp
next
  case (Cons f files)
  from Cons.prems obtain bytes where b: "map_of (disk w) (f_path f) = Some (File bytes True)"
    by auto
  obtain r w1 where r: "io_hashFile P (f_path f) w = (r, w1)"
    by (cases "io_hashFile P (f_path f) w")
  have k: "r = Inr (sha256 P bytes)" "pauseIn w1 = None" "\<not> paused (st w1)" "disk w1 = disk w"
    using r Cons.prems(1,2) b
    by (cases "bytes = []"; auto simp: io_hashFile_def hashFile_def Let_def set_paused_def elapse_def)+
  from Cons.prems(3) k(4)
  have "\<forall>file\<in>set files. \<exists>bytes. map_of (disk w1) (f_path file) = Some (File bytes True)"
    by simp
  from Cons.IH [OF k(2) k(3) this] Cons.prems(2) r k(1) show ?case by simp
qed

lemma fileCount_all_files:
  assumes "pauseIn w = None" and "\<not> paused (st w)"
    and "\<forall>file\<in>set (d_files folderInfo). \<exists>bytes. map_of (disk w) (f_path file) = Some (File bytes True)"
  shows "sig_fileCount (fst (buildFolderSignature P folderInfo w)) = length (d_files folderInfo)"
  using hash_files_length [OF assms, of P "[]"]
  by (auto simp: buildFolderSignature_def split: prod.splits)

subsection \<open>The per-file pass\<close>

text \<open>
  The loop that looks for a free name starts at a path that was just found free, so it
  returns that path at its first probe.
\<close>

lemma unique_path_free:
  "\<not> fs_access (disk w) p \<Longrightarrow> unique_path fileName p counter w = Some (p, tick w)"
  by (subst unique_path.simps) (simp add: io_access_def)

lemma place_file_eq:
  "place_file destFolderPathOf destinationFolder file w =
     (let destFolderPath = destFolderPathOf destinationFolder (f_folderRelativePath file);
          destPath = path_join [destFolderPath, f_name file];
          w1 = snd (io_mkdir destFolderPath w)
      in if fs_access (disk w1) destPath then Some (bump_duplicates 1 (tick w1))
         else (case io_copyFile (f_path file) destPath (tick (tick w1)) of
                 (Inl e, w4) \<Rightarrow> Some w4
               | (Inr u, w4) \<Rightarrow> Some (bump_sizeCopied (f_size file) (bump_copied 1 w4))))"
  by (auto simp: place_file_def Let_def io_access_def unique_path_free split: prod.splits bool.splits)

lemma fps_same:
  "folders_kept w w' \<Longrightarrow> copyLog w' = copyLog w \<Longrightarrow> file_pass_step f d pr files w w'"
  by (simp add: file_pass_step_def copies_of_def)

lemma fps_quiet: "quiet w w' \<Longrightarrow> file_pass_step f d pr files w w'"
  by (simp add: fps_same folders_kept_def quiet_def)

lemma fps_trans:
  assumes "file_pass_step f d pr xs w w1" and "file_pass_step f d pr ys w1 w2"
    and "set xs \<subseteq> set zs" and "set ys \<subseteq> set zs"
  shows "file_pass_step f d pr zs w w2"
proof -
  from assms(1) obtain n1 where n1: "copyLog w1 = copyLog w @ n1"
    "\<forall>c\<in>set n1. \<exists>file\<in>set xs. f_path file \<notin> pr \<and> fst c = f_path file \<and>
       fst (snd c) = path_join [f d (f_folderRelativePath file), f_name file]"
    unfolding file_pass_step_def copies_of_def by blast
  from assms(2) obtain n2 where n2: "copyLog w2 = copyLog w1 @ n2"
    "\<forall>c\<in>set n2. \<exists>file\<in>set ys. f_path file \<notin> pr \<and> fst c = f_path file \<and>
       fst (snd c) = path_join [f d (f_folderRelativePath file), f_name file]"
    unfolding file_pass_step_def copies_of_def by blast
  have "copyLog w2 = copyLog w @ (n1 @ n2)" using n1(1) n2(1) by simp
  moreover have "\<forall>c\<in>set (n1 @ n2). \<exists>file\<in>set zs. f_path file \<notin> pr \<and> fst c = f_path file \<and>
       fst (snd c) = path_join [f d (f_folderRelativePath file), f_name file]"
    using n1(2) n2(2) assms(3,4) unfolding set_append ball_Un by (meson subsetD)
  ultimately have "copies_of f d pr zs w w2" unfolding copies_of_def by blast
  moreover have "folders_kept w w2"
    using assms(1,2) by (simp add: file_pass_step_def folders_kept_def)
  ultimately show ?thesis by (simp add: file_pass_step_def)
qed

lemma io_mkdir_kept:
  "io_mkdir p w = (r, w') \<Longrightarrow> folders_kept w w' \<and> copyLog w' = copyLog w \<and> stats (st w') = stats (st w)"
  by (auto simp: io_mkdir_def folders_kept_def tick_def set_paused_def elapse_def split: sum.splits)

lemma io_copyFile_kept: "io_copyFile src dst w = (r, w') \<Longrightarrow> folders_kept w w'"
  by (auto simp: io_copyFile_def folders_kept_def tick_def set_paused_def elapse_def
      split: sum.splits prod.splits)

lemma tick_kept: "folders_kept w (tick w)"
  by (simp add: folders_kept_def tick_def set_paused_def elapse_def)

lemma folders_kept_trans: "folders_kept w w1 \<Longrightarrow> folders_kept w1 w2 \<Longrightarrow> folders_kept w w2"
  by (simp add: folders_kept_def)

lemma bump_kept [simp]:
  "folders_kept w (bump_duplicates n w)" "folders_kept w (bump_copied n w)"
  "folders_kept w (bump_sizeCopied n w)" "folders_kept w (bump_scanned w)"
  "folders_kept w (add_dedup k w)" "folders_kept w (set_currentIndex i w)"
  by (simp_all add: folders_kept_def bump_duplicates_def bump_copied_def bump_sizeCopied_def
      bump_scanned_def add_dedup_def set_currentIndex_def)

lemma bump_log [simp]:
  "copyLog (bump_duplicates n w) = copyLog w" "copyLog (bump_copied n w) = copyLog w"
  "copyLog (bump_sizeCopied n w) = copyLog w" "copyLog (bump_scanned w) = copyLog w"
  "copyLog (add_dedup k w) = copyLog w" "copyLog (set_currentIndex i w) = copyLog w"
  by (simp_all add: bump_duplicates_def bump_copied_def bump_sizeCopied_def
      bump_scanned_def add_dedup_def set_currentIndex_def)

lemma place_file_step:
  assumes "f_path file \<notin> pr"
  shows "\<exists>w'. place_file f d file w = Some w' \<and> file_pass_step f d pr [file] w w'"
proof -
  let ?dir = "f d (f_folderRelativePath file)"
  let ?dest = "path_join [?dir, f_name file]"
  obtain rm w1 where mk: "io_mkdir ?dir w = (rm, w1)" by (cases "io_mkdir ?dir w")
  note k1 = io_mkdir_kept [OF mk]
  show ?thesis
  proof (cases "fs_access (disk w1) ?dest")
    case True
    then have "place_file f d file w = Some (bump_duplicates 1 (tick w1))"
      using mk by (simp add: place_file_eq Let_def)
    moreover have "file_pass_step f d pr [file] w (bump_duplicates 1 (tick w1))"
      using k1 by (intro fps_same) (simp_all add: folders_kept_def tick_def set_paused_def elapse_def bump_duplicates_def)
    ultimately show ?thesis by blast
  next
    case False
    obtain rc w4 where c: "io_copyFile (f_path file) ?dest (tick (tick w1)) = (rc, w4)"
      by (cases "io_copyFile (f_path file) ?dest (tick (tick w1))")
    have kept: "folders_kept w w4"
      using k1 io_copyFile_kept [OF c]
      by (simp add: folders_kept_def tick_def set_paused_def elapse_def)
    show ?thesis
    proof (cases rc)
      case (Inl e)
      with False mk c have "place_file f d file w = Some w4"
        by (simp add: place_file_eq Let_def)
      moreover from io_copyFile_log [OF c] Inl k1 have "copyLog w4 = copyLog w" by simp
      ultimately show ?thesis using kept by (auto intro: fps_same)
    next
      case (Inr u)
      with False mk c have
        r: "place_file f d file w = Some (bump_sizeCopied (f_size file) (bump_copied 1 w4))"
        by (simp add: place_file_eq Let_def)
      from io_copyFile_log [OF c] Inr k1 obtain bytes where
        "copyLog w4 = copyLog w @ [(f_path file, ?dest, bytes)]" by auto
      then have "copies_of f d pr [file] w (bump_sizeCopied (f_size file) (bump_copied 1 w4))"
        unfolding copies_of_def using assms
        by (intro exI [of _ "[(f_path file, ?dest, bytes)]"]) simp
      moreover have "folders_kept w (bump_sizeCopied (f_size file) (bump_copied 1 w4))"
        using kept by (simp add: folders_kept_def bump_sizeCopied_def bump_copied_def)
      ultimately show ?thesis using r by (simp add: file_pass_step_def)
    qed
  qed
qed

lemma file_body_step:
  "\<exists>r w'. file_body P f d dmap pr i file w = Some r \<and> (r = Break w' \<or> r = Continue w') \<and>
           file_pass_step f d pr [file] w w'"
proof (cases "f_path file \<in> pr")
  case True
  then show ?thesis by (auto simp: file_body_def intro: fps_quiet quiet_refl)
next
  case np: False
  obtain rh w1 where h: "io_hashFile P (f_path file) (bump_scanned w) = (rh, w1)"
    by (cases "io_hashFile P (f_path file) (bump_scanned w)")
  from quiet_io_hashFile [OF h] have k: "folders_kept w w1" "copyLog w1 = copyLog w"
    by (simp_all add: quiet_def folders_kept_def bump_scanned_def)
  show ?thesis
  proof (cases rh)
    case (Inl e)
    with np h k show ?thesis by (auto simp: file_body_def intro: fps_same)
  next
    case (Inr hash)
    let ?key = "contentKey (f_size file) hash"
    show ?thesis
    proof (cases "paused (st w1)")
      case True
      with np h Inr have "file_body P f d dmap pr i file w = Some (Break (set_currentIndex i w1))"
        by (simp add: file_body_def)
      moreover have "file_pass_step f d pr [file] w (set_currentIndex i w1)"
        using k by (intro fps_same) (simp_all add: folders_kept_def set_currentIndex_def)
      ultimately show ?thesis by blast
    next
      case run: False
      show ?thesis
      proof (cases "?key \<in> deduplicationMap (st w1) \<or> ?key \<in> dmap")
        case True
        with np h Inr run have
          "file_body P f d dmap pr i file w = Some (Continue (bump_duplicates 1 w1))"
          by (simp add: file_body_def Let_def)
        moreover have "file_pass_step f d pr [file] w (bump_duplicates 1 w1)"
          using k by (intro fps_same) (simp_all add: folders_kept_def bump_duplicates_def)
        ultimately show ?thesis by blast
      next
        case False
        from place_file_step [OF np, of f d "add_dedup ?key w1"] obtain w2 where
          p: "place_file f d file (add_dedup ?key w1) = Some w2"
             "file_pass_step f d pr [file] (add_dedup ?key w1) w2" by blast
        from np h Inr run False p(1) have
          "file_body P f d dmap pr i file w = Some (Continue w2)"
          by (simp add: file_body_def Let_def)
        moreover have "file_pass_step f d pr [file] w (add_dedup ?key w1)"
          using k by (intro fps_same) (simp_all add: folders_kept_def add_dedup_def)
        then have "file_pass_step f d pr [file] w w2"
          using p(2) by (rule fps_trans) simp_all
        ultimately show ?thesis by blast
      qed
    qed
  qed
qed

text \<open>
  The per-file pass always returns; it leaves the file list, the folder list, the absorbed
  folders and the report alone, and copies only files of its list, each to its own name.
\<close>

lemma file_loop_step:
  "\<exists>w'. file_loop P f d dmap pr i files w = Some w' \<and> file_pass_step f d pr files w w'"
proof (induction files arbitrary: i w)
  case Nil
  then show ?case by (auto intro: fps_quiet quiet_refl)
next
  case (Cons x files)
  show ?case
  proof (cases "paused (st w)")
    case True
    moreover have "file_pass_step f d pr (x # files) w (set_currentIndex i w)"
      by (intro fps_same) simp_all
    ultimately show ?thesis by simp
  next
    case False
    from file_body_step [of P f d dmap pr i x w] obtain r w1 where
      b: "file_body P f d dmap pr i x w = Some r" "r = Break w1 \<or> r = Continue w1"
         "file_pass_step f d pr [x] w w1" by blast
    from b(2) show ?thesis
    proof
      assume "r = Break w1"
      with False b(1) have "file_loop P f d dmap pr i (x # files) w = Some w1" by simp
      moreover have "file_pass_step f d pr (x # files) w w1"
        using b(3) fps_quiet [OF quiet_refl, of f d pr "[]" w1] by (rule fps_trans) simp_all
      ultimately show ?thesis by blast
    next
      assume "r = Continue w1"
      with False b(1) have
        e: "file_loop P f d dmap pr i (x # files) w = file_loop P f d dmap pr (Suc i) files w1"
        by simp
      from Cons.IH [of "Suc i" w1] obtain w2 where
        l: "file_loop P f d dmap pr (Suc i) files w1 = Some w2" "file_pass_step f d pr files w1 w2"
        by blast
      from b(3) l(2) have "file_pass_step f d pr (x # files) w w2"
        by (rule fps_trans) auto
      with e l(1) show ?thesis by simp
    qed
  qed
qed

text \<open>
  Claim C4. In the per-file pass a file whose destination path is occupied is counted as a
  duplicate and is not copied, whatever its content; this check comes before the loop that
  would append \<open>_1\<close>, \<open>_2\<close>, ... to the name, so that loop finds its first candidate
  free, and no file is copied to a renamed path. The first part is about the lines from
  the destination folder to the copy (\<open>place_file\<close>), the second about the whole loop
  over the file list: every copy it makes goes to the file's own name in its destination
  folder.
\<close>

theorem name_collision_skips_and_never_renames:
  "(\<exists>w'. place_file destFolderPathOf destinationFolder file w = Some w' \<and>
      (let destFolderPath = destFolderPathOf destinationFolder (f_folderRelativePath file);
           destPath = path_join [destFolderPath, f_name file];
           w1 = snd (io_mkdir destFolderPath w)
       in if fs_access (disk w1) destPath
          then duplicates (stats (st w')) = duplicates (stats (st w)) + 1 \<and>
               copied (stats (st w')) = copied (stats (st w)) \<and>
               copyLog w' = copyLog w \<and> disk w' = disk w1
          else unique_path (f_name file) destPath 1 (tick w1) = Some (destPath, tick (tick w1)) \<and>
               (copyLog w' = copyLog w \<or>
                (\<exists>bytes. copyLog w' = copyLog w @ [(f_path file, destPath, bytes)])))) \<and>
   (\<exists>v'. file_loop P destFolderPathOf destinationFolder destinationMap processed i files v =
            Some v' \<and>
      (\<exists>new. copyLog v' = copyLog v @ new \<and>
         (\<forall>c\<in>set new. \<exists>file\<in>set files. fst c = f_path file \<and>
            fst (snd c) =
              path_join [destFolderPathOf destinationFolder (f_folderRelativePath file),
                         f_name file])))"
proof (rule conjI)
  let ?dir = "destFolderPathOf destinationFolder (f_folderRelativePath file)"
  let ?dest = "path_join [?dir, f_name file]"
  obtain rm w1 where mk: "io_mkdir ?dir w = (rm, w1)" by (cases "io_mkdir ?dir w")
  note k1 = io_mkdir_kept [OF mk]
  show "\<exists>w'. place_file destFolderPathOf destinationFolder file w = Some w' \<and>
      (let destFolderPath = destFolderPathOf destinationFolder (f_folderRelativePath file);
           destPath = path_join [destFolderPath, f_name file];
           w1 = snd (io_mkdir destFolderPath w)
       in if fs_access (disk w1) destPath
          then duplicates (stats (st w')) = duplicates (stats (st w)) + 1 \<and>
               copied (stats (st w')) = copied (stats (st w)) \<and>
               copyLog w' = copyLog w \<and> disk w' = disk w1
          else unique_path (f_name file) destPath 1 (tick w1) = Some (destPath, tick (tick w1)) \<and>
               (copyLog w' = copyLog w \<or>
                (\<exists>bytes. copyLog w' = copyLog w @ [(f_path file, destPath, bytes)])))"
  proof (cases "fs_access (disk w1) ?dest")
    case True
    then show ?thesis
      using mk k1 by (simp add: place_file_eq Let_def bump_duplicates_def)
  next
    case False
    obtain rc w4 where c: "io_copyFile (f_path file) ?dest (tick (tick w1)) = (rc, w4)"
      by (cases "io_copyFile (f_path file) ?dest (tick (tick w1))")
    have u: "unique_path (f_name file) ?dest 1 (tick w1) = Some (?dest, tick (tick w1))"
      using False by (simp add: unique_path_free)
    show ?thesis
    proof (cases rc)
      case (Inl e)
      with io_copyFile_log [OF c] k1 have "copyLog w4 = copyLog w" by simp
      with False mk c Inl u show ?thesis by (simp add: place_file_eq Let_def)
    next
      case (Inr x)
      with io_copyFile_log [OF c] k1 obtain bytes where
        "copyLog w4 = copyLog w @ [(f_path file, ?dest, bytes)]" by auto
      with False mk c Inr u show ?thesis by (simp add: place_file_eq Let_def)
    qed
  qed
next
  from file_loop_step [of P destFolderPathOf destinationFolder destinationMap processed i files v]
  obtain v' where
    l: "file_loop P destFolderPathOf destinationFolder destinationMap processed i files v = Some v'"
    and s: "file_pass_step destFolderPathOf destinationFolder processed files v v'" by blast
  from s obtain new where n: "copyLog v' = copyLog v @ new"
    "\<forall>c\<in>set new. \<exists>file\<in>set files. f_path file \<notin> processed \<and> fst c = f_path file \<and>
        fst (snd c) = path_join [destFolderPathOf destinationFolder (f_folderRelativePath file),
                        f_name file]"
    unfolding file_pass_step_def copies_of_def by blast
  from n(2) have "\<forall>c\<in>set new. \<exists>file\<in>set files. fst c = f_path file \<and>
        fst (snd c) = path_join [destFolderPathOf destinationFolder (f_folderRelativePath file),
                        f_name file]" by blast
  with l n(1) show "\<exists>v'. file_loop P destFolderPathOf destinationFolder destinationMap processed i files v =
            Some v' \<and>
      (\<exists>new. copyLog v' = copyLog v @ new \<and>
         (\<forall>c\<in>set new. \<exists>file\<in>set files. fst c = f_path file \<and>
            fst (snd c) =
              path_join [destFolderPathOf destinationFolder (f_folderRelativePath file),
                         f_name file]))" by blast
qed

text \<open>
  The destination has a file \<open>a\<close> with other bytes: the source's \<open>a\<close> is counted as a
  duplicate and the disk stays as it is; in the loop only \<open>b\<close> is copied.
\<close>

theorem name_collision_skips_and_never_renames_witness:
  "(\<exists>w'. place_file destFolderPath_start ''/d'' (file_in ''/s'' ''.'' ''a'' 3)
            (world_on collision_disk None) = Some w' \<and>
          duplicates (stats (st w')) = 1 \<and> copied (stats (st w')) = 0 \<and> copyLog w' = [] \<and>
          disk w' = collision_disk) \<and>
   map_option copyLog
     (file_loop plain_platform destFolderPath_start ''/d'' {} {} 0
        [file_in ''/s'' ''.'' ''a'' 3, file_in ''/s'' ''.'' ''b'' 1]
        (world_on collision_disk None)) = Some [(''/s/b'', ''/d/b'', ''B'')]"
proof -
  let ?f = "file_in ''/s'' ''.'' ''a'' 3" and ?w = "world_on collision_disk None"
  let ?dir = "destFolderPath_start ''/d'' (f_folderRelativePath ?f)"
  have occ: "fs_access (disk (snd (io_mkdir ?dir ?w))) (path_join [?dir, f_name ?f])"
    by code_simp
  have init: "duplicates (stats (st ?w)) = 0" "copied (stats (st ?w)) = 0" "copyLog ?w = []"
    "disk (snd (io_mkdir ?dir ?w)) = collision_disk"
    by code_simp+
  from name_collision_skips_and_never_renames
    [of destFolderPath_start "''/d''" ?f ?w plain_platform "{}" "{}" 0 "[]" ?w]
  obtain w' where "place_file destFolderPath_start ''/d'' ?f ?w = Some w'"
    and "let destFolderPath = ?dir;
             destPath = path_join [destFolderPath, f_name ?f];
             w1 = snd (io_mkdir destFolderPath ?w)
         in if fs_access (disk w1) destPath
            then duplicates (stats (st w')) = duplicates (stats (st ?w)) + 1 \<and>
               copied (stats (st w')) = copied (stats (st ?w)) \<and>
               copyLog w' = copyLog ?w \<and> disk w' = disk w1
            else unique_path (f_name ?f) destPath 1 (tick w1) = Some (destPath, tick (tick w1)) \<and>
               (copyLog w' = copyLog ?w \<or>
                (\<exists>bytes. copyLog w' = copyLog ?w @ [(f_path ?f, destPath, bytes)]))"
    by blast
  with occ init have "place_file destFolderPath_start ''/d'' ?f ?w = Some w' \<and>
          duplicates (stats (st w')) = 1 \<and> copied (stats (st w')) = 0 \<and> copyLog w' = [] \<and>
          disk w' = collision_disk"
    by (simp add: Let_def)
  then have "\<exists>w'. place_file destFolderPath_start ''/d'' ?f ?w = Some w' \<and>
          duplicates (stats (st w')) = 1 \<and> copied (stats (st w')) = 0 \<and> copyLog w' = [] \<and>
          disk w' = collision_disk" ..
  moreover have "map_option copyLog
     (file_loop plain_platform destFolderPath_start ''/d'' {} {} 0
        [?f, file_in ''/s'' ''.'' ''b'' 1] ?w) = Some [(''/s/b'', ''/d/b'', ''B'')]"
    by code_simp
  ultimately show ?thesis by (rule conjI)
qed

subsection \<open>The saved cursor\<close>

text \<open>
  When the hash of the file at index \<open>i\<close> fails because of the pause, the exception is
  caught by the \<open>catch\<close> of the loop body, which continues; the check at the head of the
  next iteration saves \<open>i + 1\<close>. The check after \<open>hashFile\<close> that would save \<open>i\<close> is not
  reached.
\<close>

lemma cancelled_hash_advances_cursor:
  assumes "\<not> paused (st w)" and "f_path file \<notin> processed"
    and "io_hashFile P (f_path file) (bump_scanned w) = (Inl Paused, w1)" and "paused (st w1)"
  shows "file_loop P destFolderPathOf destinationFolder destinationMap processed i
           (file # nextFile # files) w = Some (set_currentIndex (Suc i) w1)"
  using assms by (simp add: file_body_def)

text \<open>
  A pause message that arrives while a file is hashed makes the hash fail, for a loop that
  was running: the cursor saved is that of the next file.
\<close>

lemma io_hashFile_cancelled:
  assumes "pauseIn w = Some 0"
  shows "fst (io_hashFile P p w) \<noteq> Inr h" and "paused (st (snd (io_hashFile P p w)))"
  using assms
  by (auto simp: io_hashFile_def hashFile_def Let_def set_paused_def elapse_def
      split: option.splits node.splits bool.splits prod.splits)

lemma pause_during_hash_saves_next_index:
  assumes "\<not> paused (st w)" and "f_path file \<notin> processed" and "pauseIn w = Some 0"
  shows "map_option (currentIndex \<circ> st)
           (file_loop P destFolderPathOf destinationFolder destinationMap processed i
              (file # nextFile # files) w) = Some (Suc i)"
proof -
  have p: "pauseIn (bump_scanned w) = Some 0" using assms(3) by (simp add: bump_scanned_def)
  obtain r w1 where h: "io_hashFile P (f_path file) (bump_scanned w) = (r, w1)"
    by (cases "io_hashFile P (f_path file) (bump_scanned w)")
  from io_hashFile_cancelled [OF p, of P "f_path file"] h
  have "\<forall>x. r \<noteq> Inr x" "paused (st w1)" by auto
  then obtain e where "r = Inl e" by (cases r) auto
  with h assms(1,2) \<open>paused (st w1)\<close> show ?thesis
    by (simp add: file_body_def set_currentIndex_def)
qed

text \<open>
  Claim C3 says that a run paused while the per-file pass is at the file of index \<open>i\<close>,
  also when the hash of that file is cancelled by the pause, saves the cursor \<open>i\<close>, so
  that resuming processes file \<open>i\<close> again. In the run below the pause message arrives
  while \<open>/s/a\<close>, the file of index 0, is being hashed (the seventh awaited operation of
  the run). The run stops with the cursor 1, one file scanned and nothing copied; the
  resumed run copies only \<open>/s/b\<close> and completes: \<open>/s/a\<close> is never copied.
\<close>

theorem hash_cancel_skips_the_file:
  "map_option paused_at
     (start_process 5 plain_platform [''/s''] ''/d'' [] (world_on flat_disk (Some 6))) =
     Some (True, 1) \<and>
   map_option (map f_path \<circ> fileList \<circ> st)
     (start_process 5 plain_platform [''/s''] ''/d'' [] (world_on flat_disk (Some 6))) =
     Some [''/s/a'', ''/s/b''] \<and>
   map_option (scanned \<circ> stats \<circ> st)
     (start_process 5 plain_platform [''/s''] ''/d'' [] (world_on flat_disk (Some 6))) = Some 1 \<and>
   map_option copyLog
     (start_process 5 plain_platform [''/s''] ''/d'' [] (world_on flat_disk (Some 6))) = Some [] \<and>
   map_option copyLog
     (run_then (start_process 5 plain_platform [''/s''] ''/d'' [] (world_on flat_disk (Some 6)))
        (resume_process 5 plain_platform [''/s''] ''/d'' [])) =
     Some [(''/s/b'', ''/d/b'', ''B'')] \<and>
   map_option (paused \<circ> st)
     (run_then (start_process 5 plain_platform [''/s''] ''/d'' [] (world_on flat_disk (Some 6)))
        (resume_process 5 plain_platform [''/s''] ''/d'' [])) = Some False"
  by code_simp

subsection \<open>resume-process\<close>












subsection \<open>A second run\<close>

text \<open>
  Claim C5 says that a second run of \<open>start-process\<close> on the same sources and
  destination, after a first run that completed, copies nothing. \<open>mergeFolderRecursive\<close>
  copies a file over a file of the same name with other bytes. With two folders \<open>T\<close>
  and \<open>T_2\<close> of one group that each have a file \<open>a\<close>, the first run leaves the bytes of
  \<open>T_2/a\<close> in the destination; in the second run the signature of \<open>T\<close> is not among
  the destination's and the key of \<open>T/a\<close> is not in the map, so \<open>T/a\<close> is copied again.
\<close>

theorem second_run_copies_again:
  "map_option (paused \<circ> st)
     (start_process 5 plain_platform [''/s''] ''/d'' [] (world_on clash_disk None)) = Some False \<and>
   map_option copyLog
     (start_process 5 plain_platform [''/s''] ''/d'' [] (world_on clash_disk None)) =
     Some [(''/s/T/a'', ''/d/T/a'', ''x''), (''/s/T_2/a'', ''/d/T/a'', ''y'')] \<and>
   map_option copyLog
     (run_then (start_process 5 plain_platform [''/s''] ''/d'' [] (world_on clash_disk None))
        (start_process 5 plain_platform [''/s''] ''/d'' [])) =
     Some [(''/s/T/a'', ''/d/T/a'', ''x''), (''/s/T_2/a'', ''/d/T/a'', ''y''),
           (''/s/T/a'', ''/d/T/a'', ''x'')]"
  by code_simp

subsection \<open>confirm-merge\<close>

text \<open>
  Claim C8 says that \<open>confirm-merge\<close> deletes a folder only after all of it was merged
  into the first folder of its group, and that a pause during the merge never leads to
  deleting a folder whose content has not been copied. \<open>mergeFolderRecursive\<close> returns
  normally when it sees the pause flag, and \<open>fs.rm\<close> follows. Below the pause message
  arrives while \<open>/d/P_bak/b\<close> is being hashed: nothing is copied, and \<open>/d/P_bak\<close> is
  deleted with both of its files.
\<close>

theorem paused_merge_deletes_uncopied_files:
  "map_option disk
     (confirm_merge 5 plain_platform ''/d'' [\<lparr>q_name = ''P'', q_folders = [''/d/P'', ''/d/P_bak'']\<rparr>]
        (world_on photos_disk (Some 6))) =
     Some [(''/d'', Dir), (''/d/P'', Dir), (''/d/P/a'', File ''1'' True)] \<and>
   map_option copyLog
     (confirm_merge 5 plain_platform ''/d'' [\<lparr>q_name = ''P'', q_folders = [''/d/P'', ''/d/P_bak'']\<rparr>]
        (world_on photos_disk (Some 6))) = Some [] \<and>
   map_option (paused \<circ> st)
     (confirm_merge 5 plain_platform ''/d'' [\<lparr>q_name = ''P'', q_folders = [''/d/P'', ''/d/P_bak'']\<rparr>]
        (world_on photos_disk (Some 6))) = Some True"
  by code_simp

end
